theory Spec2Isabelle
  imports Main "HOL-Library.AList"
begin

section \<open>The book handlers of \<^verbatim>\<open>src/handlers.ts\<close>\<close>

text \<open>
  The module exports five Lambda handlers (\<^verbatim>\<open>createBook\<close>, \<^verbatim>\<open>getBook\<close>,
  \<^verbatim>\<open>updateBook\<close>, \<^verbatim>\<open>deleteBook\<close>, \<^verbatim>\<open>listBook\<close>) over one DynamoDB table keyed
  by \<^verbatim>\<open>ISBN\<close>. Each handler is embedded as a function from the request and the state of
  the table to the outcome of the promise and the new state. What the handlers import
  (\<^verbatim>\<open>JSON\<close>, \<^verbatim>\<open>yup\<close>, \<^verbatim>\<open>uuid\<close>, the DynamoDB document client) is not part of the
  module: the functions of the JavaScript engine are parameters of the model (record
  \<open>libs\<close>), yup's validation of the module's schema is modelled after yup 1.x, the
  identifier drawn by \<^verbatim>\<open>v4()\<close> is an argument of \<open>createBook\<close>, and the table is a
  key-value list together with the outcomes of its pending requests.
\<close>

subsection \<open>JavaScript values\<close>

text \<open>
  The values \<^verbatim>\<open>JSON.parse\<close> returns. A number is named by its canonical rendering
  (\<^verbatim>\<open>Number.prototype.toString\<close>); the handlers never compute with numbers. The
  properties of an object are listed in enumeration order.
\<close>

datatype json =
    JNull
  | JBool bool
  | JNum string
  | JStr string
  | JArr "json list"
  | JObj "(string \<times> json) list"

type_synonym item = "(string \<times> json) list"

text \<open>\<^verbatim>\<open>Array.prototype.join\<close> on texts.\<close>

fun join :: "string \<Rightarrow> string list \<Rightarrow> string" where
  "join sep [] = []"
| "join sep [x] = x"
| "join sep (x # y # ys) = x @ sep @ join sep (y # ys)"

text \<open>The decimal rendering of an array index, which is the property key of an element.\<close>

fun index_key :: "nat \<Rightarrow> string" where
  "index_key n =
     (if n < 10 then [''0123456789'' ! n]
      else index_key (n div 10) @ [''0123456789'' ! (n mod 10)])"

declare index_key.simps [simp del]

text \<open>
  Object spread \<^verbatim>\<open>{...v}\<close> copies the own enumerable properties of \<^verbatim>\<open>v\<close>: the
  properties of an object, the elements of an array and the characters of a string
  under their indices, and nothing for \<^verbatim>\<open>null\<close>, a boolean or a number.
\<close>

fun spread :: "json \<Rightarrow> item" where
  "spread (JObj fs) = fs"
| "spread (JArr xs) = zip (map index_key [0..<length xs]) xs"
| "spread (JStr s) = zip (map index_key [0..<length s]) (map (\<lambda>c. JStr [c]) s)"
| "spread JNull = []"
| "spread (JBool b) = []"
| "spread (JNum n) = []"

subsection \<open>Requests, responses and thrown values\<close>

text \<open>
  Of the \<^verbatim>\<open>APIGatewayProxyEvent\<close> the handlers read \<^verbatim>\<open>event.body as string\<close> and
  \<^verbatim>\<open>event.pathParameters?.id as string\<close>; both casts are taken at their word. A
  response has \<^verbatim>\<open>headers\<close> only where the handler's object literal has the field.
\<close>

record event =
  event_body :: string
  event_id :: string

record response =
  statusCode :: nat
  headers :: "(string \<times> string) list option"
  body :: string

text \<open>
  What a handler can find in its \<^verbatim>\<open>catch (e)\<close>: the three classes \<^verbatim>\<open>handleError\<close>
  tests with \<^verbatim>\<open>instanceof\<close>, and any other thrown value. \<^verbatim>\<open>HttpError\<close> is the
  module's own class: its message is the \<^verbatim>\<open>JSON.stringify\<close> of the body it was built
  with.
\<close>

datatype exn =
    ValidationError "string list"
  | SyntaxError string
  | HttpError nat string
  | OtherError string

text \<open>The module constant \<^verbatim>\<open>headers\<close>.\<close>

definition json_headers :: "(string \<times> string) list" where
  "json_headers = [(''content-type'', ''application/json'')]"

subsection \<open>The imported libraries\<close>

text \<open>
  What the JavaScript engine and its built-in objects decide is taken as a parameter:
  \<^item> \<open>JSON_parse\<close>: \<^verbatim>\<open>JSON.parse(text)\<close>, the parsed value or the message of the
    \<^verbatim>\<open>SyntaxError\<close>;
  \<^item> \<open>JSON_stringify\<close>: \<^verbatim>\<open>JSON.stringify(v)\<close>;
  \<^item> \<open>JSON_stringify_indent\<close>: \<^verbatim>\<open>JSON.stringify(v, null, 2)\<close>, which yup uses to print
    an array or an object in a message;
  \<^item> \<open>Date_parse\<close>: whether yup's \<^verbatim>\<open>parseIsoDate(text)\<close> is a number, for a text that is
    not in the ISO format with a four-digit year: an ISO text with an expanded year
    that \<^verbatim>\<open>Date\<close> can hold, or a text the engine's own \<^verbatim>\<open>Date.parse\<close> accepts.
\<close>

record libs =
  JSON_parse :: "string \<Rightarrow> string + json"
  JSON_stringify :: "json \<Rightarrow> string"
  JSON_stringify_indent :: "json \<Rightarrow> string"
  Date_parse :: "string \<Rightarrow> bool"

subsection \<open>The schema and its validation by yup\<close>

text \<open>
  The model follows yup 1.x, for the three field schemas the module builds
  (\<^verbatim>\<open>yup.string().required()\<close>, \<^verbatim>\<open>yup.date().required()\<close>,
  \<^verbatim>\<open>yup.bool().required()\<close>) inside \<^verbatim>\<open>yup.object().shape({...})\<close>, on values that
  come from \<^verbatim>\<open>JSON.parse\<close>.
\<close>

datatype yup_type = YupString | YupDate | YupBool

text \<open>The constant \<^verbatim>\<open>schema\<close>: the shape of five required fields.\<close>

definition schema :: "(string \<times> yup_type) list" where
  "schema =
     [(''author'', YupString),
      (''title'', YupString),
      (''description'', YupString),
      (''publication_date'', YupDate),
      (''available'', YupBool)]"

fun type_name :: "yup_type \<Rightarrow> string" where
  "type_name YupString = ''string''"
| "type_name YupDate = ''date''"
| "type_name YupBool = ''boolean''"

text \<open>
  \<^verbatim>\<open>String(v)\<close>, the conversion a regular expression and \<^verbatim>\<open>Date.parse\<close> apply to
  their argument. An array joins the texts of its elements with commas, \<^verbatim>\<open>null\<close>
  elements giving the empty text. A plain object gives \<^verbatim>\<open>[object Object]\<close>; when it
  has a property \<^verbatim>\<open>toString\<close> of its own, which after \<^verbatim>\<open>JSON.parse\<close> is never a
  function, the conversion throws a \<^verbatim>\<open>TypeError\<close>: the result \<open>None\<close>.
\<close>

fun js_String :: "json \<Rightarrow> string option" where
  "js_String JNull = Some ''null''"
| "js_String (JBool b) = Some (if b then ''true'' else ''false'')"
| "js_String (JNum n) = Some n"
| "js_String (JStr s) = Some s"
| "js_String (JArr xs) =
     map_option (join '','')
       (those (map (\<lambda>x. if x = JNull then Some [] else js_String x) xs))"
| "js_String (JObj fs) =
     (if ''toString'' \<in> fst ` set fs then None else Some ''[object Object]'')"

text \<open>JavaScript's \<^verbatim>\<open>ToBoolean\<close>.\<close>

fun truthy :: "json \<Rightarrow> bool" where
  "truthy JNull = False"
| "truthy (JBool b) = b"
| "truthy (JNum n) = (n \<noteq> ''0'')"
| "truthy (JStr s) = (s \<noteq> [])"
| "truthy (JArr xs) = True"
| "truthy (JObj fs) = True"

text \<open>
  yup's \<^verbatim>\<open>printValue(v, true)\<close>, which writes a value into a message: a string between
  double quotes, a number, a boolean and \<^verbatim>\<open>null\<close> as they are, and an array or an
  object through \<^verbatim>\<open>JSON.stringify\<close> with an indentation of two and a replacer that
  prints every member that is not itself an array or an object.
\<close>

fun printSimpleValue :: "json \<Rightarrow> string option" where
  "printSimpleValue JNull = Some ''null''"
| "printSimpleValue (JBool b) = Some (if b then ''true'' else ''false'')"
| "printSimpleValue (JNum n) = Some n"
| "printSimpleValue (JStr s) = Some (CHR 0x22 # s @ [CHR 0x22])"
| "printSimpleValue (JArr xs) = None"
| "printSimpleValue (JObj fs) = None"

fun replace_members :: "json \<Rightarrow> json" where
  "replace_members (JArr xs) = JArr (map replace_members xs)"
| "replace_members (JObj fs) = JObj (map (\<lambda>(k, v). (k, replace_members v)) fs)"
| "replace_members JNull = JStr ''null''"
| "replace_members (JBool b) = JStr (if b then ''true'' else ''false'')"
| "replace_members (JNum n) = JStr n"
| "replace_members (JStr s) = JStr (CHR 0x22 # s @ [CHR 0x22])"

definition printValue :: "libs \<Rightarrow> json \<Rightarrow> string" where
  "printValue L v =
     (case printSimpleValue v of
        Some s \<Rightarrow> s
      | None \<Rightarrow> JSON_stringify_indent L (replace_members v))"

text \<open>
  The messages of yup's locale that these schemas can give: \<^verbatim>\<open>mixed.required\<close>, and
  \<^verbatim>\<open>mixed.notType\<close> with the printed final value and, when the cast changed the
  value, the printed original.
\<close>

definition required_message :: "string \<Rightarrow> string" where
  "required_message path = path @ '' is a required field''"

definition notType :: "string \<Rightarrow> string \<Rightarrow> string \<Rightarrow> string option \<Rightarrow> string" where
  "notType path type final original =
     path @ '' must be a '' @ [CHR 0x60] @ type @ [CHR 0x60]
       @ '' type, but the final value was: '' @ [CHR 0x60] @ final @ [CHR 0x60]
       @ (case original of
            None \<Rightarrow> ''.''
          | Some v \<Rightarrow> '' (cast from the value '' @ [CHR 0x60] @ v @ [CHR 0x60] @ '').'')"

text \<open>
  The regular expression of \<^verbatim>\<open>parseIsoDate\<close>, for a four-digit year:
  \<^verbatim>\<open>^(\d{4})(?:-?(\d{2})(?:-?(\d{2}))?)?(?:[ T]?(\d{2}):?(\d{2})(?::?(\d{2})(?:[,.](\d{1,}))?)?(?:(Z)|([+-])(\d{2})(?::?(\d{2}))?)?)?$\<close>.
  Each part maps a text to the texts that can remain after it, so that every way of
  matching is followed. A text that matches is a date: its numbers, whatever they
  are, make a time that \<^verbatim>\<open>Date\<close> can hold.
\<close>

definition is_digit :: "char \<Rightarrow> bool" where
  "is_digit c = (c \<in> set ''0123456789'')"

definition digits :: "nat \<Rightarrow> string \<Rightarrow> string list" where
  "digits n s = (if n \<le> length s \<and> list_all is_digit (take n s) then [drop n s] else [])"

definition one_of :: "string \<Rightarrow> string \<Rightarrow> string list" where
  "one_of cs s = (case s of [] \<Rightarrow> [] | c # r \<Rightarrow> if c \<in> set cs then [r] else [])"

definition opt :: "(string \<Rightarrow> string list) \<Rightarrow> string \<Rightarrow> string list" where
  "opt p s = s # p s"

definition seq :: "(string \<Rightarrow> string list) \<Rightarrow> (string \<Rightarrow> string list) \<Rightarrow> string \<Rightarrow> string list" where
  "seq p q s = concat (map q (p s))"

text \<open>One digit or more: every prefix of digits can be the match.\<close>

fun some_digits :: "string \<Rightarrow> string list" where
  "some_digits [] = []"
| "some_digits (c # r) = (if is_digit c then r # some_digits r else [])"

definition iso_date_part :: "string \<Rightarrow> string list" where
  "iso_date_part =
     opt (seq (opt (one_of ''-'')) (seq (digits 2)
       (opt (seq (opt (one_of ''-'')) (digits 2)))))"

definition iso_zone_part :: "string \<Rightarrow> string list" where
  "iso_zone_part =
     opt (\<lambda>s. one_of ''Z'' s
       @ seq (one_of ''+-'') (seq (digits 2) (opt (seq (opt (one_of '':'')) (digits 2)))) s)"

definition iso_time_part :: "string \<Rightarrow> string list" where
  "iso_time_part =
     opt (seq (opt (one_of '' T'')) (seq (digits 2) (seq (opt (one_of '':'')) (seq (digits 2)
       (seq (opt (seq (opt (one_of '':'')) (seq (digits 2)
          (opt (seq (one_of '',.'') some_digits)))))
        iso_zone_part)))))"

definition iso_date :: "string \<Rightarrow> bool" where
  "iso_date s = ([] \<in> set (seq (digits 4) (seq iso_date_part iso_time_part) s))"

definition is_date :: "libs \<Rightarrow> string \<Rightarrow> bool" where
  "is_date L s = (iso_date s \<or> Date_parse L s)"

text \<open>ASCII letters in lower case, for a regular expression with the flag \<^verbatim>\<open>i\<close>.\<close>

definition to_lower :: "char \<Rightarrow> char" where
  "to_lower c =
     (case map_of (zip ''ABCDEFGHIJKLMNOPQRSTUVWXYZ'' ''abcdefghijklmnopqrstuvwxyz'') c of
        None \<Rightarrow> c
      | Some l \<Rightarrow> l)"

text \<open>
  One field of the shape, given its name and the value of the property (\<open>None\<close> for
  \<^verbatim>\<open>undefined\<close>): the cast of the field schema, then its tests. \<open>Inr None\<close>: the
  field passes; \<open>Inr (Some m)\<close>: it fails with message \<open>m\<close>; \<open>Inl e\<close>: the cast throws.
  \<^item> \<^verbatim>\<open>undefined\<close> and \<^verbatim>\<open>null\<close> are left by every cast and fail the tests
    \<^verbatim>\<open>required()\<close> installs, with its message.
  \<^item> A string schema casts a number or a boolean to its text, leaves an array, and
    calls the \<^verbatim>\<open>toString\<close> of an object when the property is truthy (a
    \<^verbatim>\<open>TypeError\<close> for a parsed object, whose \<^verbatim>\<open>toString\<close> is then no function);
    the object's own text \<^verbatim>\<open>[object Object]\<close> is not taken. A string that is
    empty fails \<^verbatim>\<open>required\<close>.
  \<^item> A boolean schema casts a value whose text matches \<^verbatim>\<open>/^(true|1)$/i\<close> or
    \<^verbatim>\<open>/^(false|0)$/i\<close>.
  \<^item> A date schema casts the text of a value with \<^verbatim>\<open>parseIsoDate\<close>; a text that
    gives no number gives \<^verbatim>\<open>Invalid Date\<close>.
  A schema has the type test and the tests of \<^verbatim>\<open>required()\<close>, and at most one of
  them fails: a field gives at most one message.
\<close>

fun field_test :: "libs \<Rightarrow> yup_type \<Rightarrow> string \<Rightarrow> json option \<Rightarrow> exn + string option" where
  "field_test L t k None = Inr (Some (required_message k))"
| "field_test L t k (Some JNull) = Inr (Some (required_message k))"
| "field_test L YupString k (Some (JStr s)) =
     Inr (if s = [] then Some (required_message k) else None)"
| "field_test L YupString k (Some (JNum n)) = Inr None"
| "field_test L YupString k (Some (JBool b)) = Inr None"
| "field_test L YupString k (Some (JArr xs)) =
     Inr (Some (notType k ''string'' (printValue L (JArr xs)) None))"
| "field_test L YupString k (Some (JObj fs)) =
     (case map_of fs ''toString'' of
        None \<Rightarrow> Inr (Some (notType k ''string'' (printValue L (JObj fs)) None))
      | Some m \<Rightarrow>
          if truthy m then Inl (OtherError ''TypeError'')
          else Inr (Some (notType k ''string'' (printValue L (JObj fs)) None)))"
| "field_test L YupBool k (Some (JBool b)) = Inr None"
| "field_test L YupBool k (Some v) =
     (case js_String v of
        None \<Rightarrow> Inl (OtherError ''TypeError'')
      | Some s \<Rightarrow>
          if map to_lower s \<in> set [''true'', ''1'', ''false'', ''0''] then Inr None
          else Inr (Some (notType k ''boolean'' (printValue L v) None)))"
| "field_test L YupDate k (Some v) =
     (case js_String v of
        None \<Rightarrow> Inl (OtherError ''TypeError'')
      | Some s \<Rightarrow>
          if is_date L s then Inr None
          else Inr (Some (notType k ''date'' ''Invalid Date'' (Some (printValue L v)))))"

text \<open>
  \<^verbatim>\<open>validate(value, { abortEarly })\<close> of an object schema of the given shape.
  \<^item> A value that is not a plain object fails the schema's own tests, with one message,
    and no field is tested.
  \<^item> Otherwise the fields are cast, and a cast that throws rejects the promise with
    the \<^verbatim>\<open>TypeError\<close>.
  \<^item> Then every field is tested. With \<^verbatim>\<open>abortEarly: false\<close> the messages of all
    failing fields are collected, in the order of the shape. With \<^verbatim>\<open>abortEarly: true\<close>
    the promise is rejected at the first failure; yup goes through the fields from the
    last of the shape to the first.
  The handlers await the call and drop its result, so the model returns no value.
\<close>

definition field_results :: "libs \<Rightarrow> (string \<times> yup_type) list \<Rightarrow> item \<Rightarrow> (exn + string option) list" where
  "field_results L shape fs = map (\<lambda>(k, t). field_test L t k (map_of fs k)) shape"

definition messages :: "(exn + string option) list \<Rightarrow> string list" where
  "messages rs = List.map_filter (\<lambda>r. case r of Inl e \<Rightarrow> None | Inr m \<Rightarrow> m) rs"

definition yup_validate :: "libs \<Rightarrow> (string \<times> yup_type) list \<Rightarrow> bool \<Rightarrow> json \<Rightarrow> exn + unit" where
  "yup_validate L shape abortEarly v =
     (case v of
        JObj fs \<Rightarrow>
          (if list_ex isl (field_results L shape fs) then Inl (OtherError ''TypeError'')
           else
             (case messages (field_results L shape fs) of
                [] \<Rightarrow> Inr ()
              | m # ms \<Rightarrow>
                  Inl (ValidationError (if abortEarly then [last (m # ms)] else m # ms))))
      | JNull \<Rightarrow> Inl (ValidationError [''this cannot be null''])
      | _ \<Rightarrow> Inl (ValidationError [notType ''this'' ''object'' (printValue L v) None]))"

text \<open>\<^verbatim>\<open>schema.validate(reqBody, { abortEarly: false })\<close>, as both handlers call it.\<close>

definition field_errors :: "libs \<Rightarrow> item \<Rightarrow> string list" where
  "field_errors L fs = messages (field_results L schema fs)"

definition schema_validate :: "libs \<Rightarrow> json \<Rightarrow> exn + unit" where
  "schema_validate L v = yup_validate L schema False v"

subsection \<open>The table\<close>

text \<open>
  \<^verbatim>\<open>BooksTable\<close> holds at most one item per \<^verbatim>\<open>ISBN\<close>. A request to the document
  client either is served or rejects its promise: \<open>faults\<close> lists the outcomes of the
  requests to come (\<open>Some m\<close>: the request fails with an error of message \<open>m\<close>; past the
  end of the list every request is served). A rejected request leaves the items as
  they are.
\<close>

record world =
  table :: "(string \<times> item) list"
  faults :: "string option list"

definition request :: "world \<Rightarrow> string option \<times> world" where
  "request w =
     (case faults w of
        [] \<Rightarrow> (None, w)
      | f # fs \<Rightarrow> (f, w\<lparr>faults := fs\<rparr>))"

definition docClient_get :: "string \<Rightarrow> world \<Rightarrow> (exn + item option) \<times> world" where
  "docClient_get k w =
     (case request w of
        (Some m, w') \<Rightarrow> (Inl (OtherError m), w')
      | (None, w') \<Rightarrow> (Inr (map_of (table w') k), w'))"

text \<open>
  \<^verbatim>\<open>put\<close> replaces the whole item stored under the key of the new one. DynamoDB
  rejects an item whose key attribute \<^verbatim>\<open>ISBN\<close> is missing or is not a string.
\<close>

definition docClient_put :: "item \<Rightarrow> world \<Rightarrow> (exn + unit) \<times> world" where
  "docClient_put it w =
     (case request w of
        (Some m, w') \<Rightarrow> (Inl (OtherError m), w')
      | (None, w') \<Rightarrow>
          (case map_of it ''ISBN'' of
             Some (JStr k) \<Rightarrow> (Inr (), w'\<lparr>table := AList.update k it (table w')\<rparr>)
           | _ \<Rightarrow> (Inl (OtherError ''ValidationException''), w')))"

definition docClient_delete :: "string \<Rightarrow> world \<Rightarrow> (exn + unit) \<times> world" where
  "docClient_delete k w =
     (case request w of
        (Some m, w') \<Rightarrow> (Inl (OtherError m), w')
      | (None, w') \<Rightarrow> (Inr (), w'\<lparr>table := AList.delete k (table w')\<rparr>))"

text \<open>\<^verbatim>\<open>scan\<close> returns every item; the order of the list stands for DynamoDB's.\<close>

definition docClient_scan :: "world \<Rightarrow> (exn + item list) \<times> world" where
  "docClient_scan w =
     (case request w of
        (Some m, w') \<Rightarrow> (Inl (OtherError m), w')
      | (None, w') \<Rightarrow> (Inr (map snd (table w')), w'))"

text \<open>The next \<open>n\<close> requests to the table are served.\<close>

definition serves :: "nat \<Rightarrow> world \<Rightarrow> bool" where
  "serves n w = list_all (\<lambda>f. f = None) (take n (faults w))"

subsection \<open>The handlers\<close>

definition fetchBookById :: "libs \<Rightarrow> string \<Rightarrow> world \<Rightarrow> (exn + item) \<times> world" where
  "fetchBookById L k w =
     (case docClient_get k w of
        (Inl e, w') \<Rightarrow> (Inl e, w')
      | (Inr None, w') \<Rightarrow>
          (Inl (HttpError 404 (JSON_stringify L (JObj [(''error'', JStr ''not found'')]))), w')
      | (Inr (Some it), w') \<Rightarrow> (Inr it, w'))"

text \<open>\<open>Inl e\<close> is \<^verbatim>\<open>throw e\<close>: the value leaves the handler uncaught.\<close>

definition handleError :: "libs \<Rightarrow> exn \<Rightarrow> exn + response" where
  "handleError L e =
     (case e of
        ValidationError errors \<Rightarrow>
          Inr \<lparr>statusCode = 400, headers = Some json_headers,
               body = JSON_stringify L (JObj [(''errors'', JArr (map JStr errors))])\<rparr>
      | SyntaxError message \<Rightarrow>
          Inr \<lparr>statusCode = 400, headers = Some json_headers,
               body = JSON_stringify L
                 (JObj [(''error'',
                    JStr (''invalid request body format : '' @ [CHR 0x22] @ message @ [CHR 0x22]))])\<rparr>
      | HttpError code message \<Rightarrow>
          Inr \<lparr>statusCode = code, headers = Some json_headers, body = message\<rparr>
      | OtherError m \<Rightarrow> Inl e)"

text \<open>\<^verbatim>\<open>try { ... } catch (e) { return handleError(e); }\<close> around a handler's body.\<close>

definition catch :: "libs \<Rightarrow> (exn + response) \<times> world \<Rightarrow> (exn + response) \<times> world" where
  "catch L r =
     (case r of
        (Inl e, w) \<Rightarrow> (handleError L e, w)
      | (Inr res, w) \<Rightarrow> (Inr res, w))"

text \<open>The \<^verbatim>\<open>try\<close> block of \<^verbatim>\<open>createBook\<close>; \<open>uuid\<close> is what \<^verbatim>\<open>v4()\<close> returns.\<close>

definition createBook_try :: "libs \<Rightarrow> string \<Rightarrow> event \<Rightarrow> world \<Rightarrow> (exn + response) \<times> world" where
  "createBook_try L uuid ev w =
     (case JSON_parse L (event_body ev) of
        Inl m \<Rightarrow> (Inl (SyntaxError m), w)
      | Inr reqBody \<Rightarrow>
          (case schema_validate L reqBody of
             Inl e \<Rightarrow> (Inl e, w)
           | Inr _ \<Rightarrow>
               (let book = AList.update ''ISBN'' (JStr uuid) (spread reqBody) in
                case docClient_put book w of
                  (Inl e, w') \<Rightarrow> (Inl e, w')
                | (Inr _, w') \<Rightarrow>
                    (Inr \<lparr>statusCode = 201, headers = Some json_headers,
                          body = JSON_stringify L (JObj book)\<rparr>, w'))))"

definition createBook :: "libs \<Rightarrow> string \<Rightarrow> event \<Rightarrow> world \<Rightarrow> (exn + response) \<times> world" where
  "createBook L uuid ev w = catch L (createBook_try L uuid ev w)"

definition getBook_try :: "libs \<Rightarrow> event \<Rightarrow> world \<Rightarrow> (exn + response) \<times> world" where
  "getBook_try L ev w =
     (case fetchBookById L (event_id ev) w of
        (Inl e, w') \<Rightarrow> (Inl e, w')
      | (Inr book, w') \<Rightarrow>
          (Inr \<lparr>statusCode = 200, headers = Some json_headers,
                body = JSON_stringify L (JObj book)\<rparr>, w'))"

definition getBook :: "libs \<Rightarrow> event \<Rightarrow> world \<Rightarrow> (exn + response) \<times> world" where
  "getBook L ev w = catch L (getBook_try L ev w)"

definition updateBook_try :: "libs \<Rightarrow> event \<Rightarrow> world \<Rightarrow> (exn + response) \<times> world" where
  "updateBook_try L ev w =
     (case fetchBookById L (event_id ev) w of
        (Inl e, w1) \<Rightarrow> (Inl e, w1)
      | (Inr _, w1) \<Rightarrow>
          (case JSON_parse L (event_body ev) of
             Inl m \<Rightarrow> (Inl (SyntaxError m), w1)
           | Inr reqBody \<Rightarrow>
               (case schema_validate L reqBody of
                  Inl e \<Rightarrow> (Inl e, w1)
                | Inr _ \<Rightarrow>
                    (let book = AList.update ''ISBN'' (JStr (event_id ev)) (spread reqBody) in
                     case docClient_put book w1 of
                       (Inl e, w2) \<Rightarrow> (Inl e, w2)
                     | (Inr _, w2) \<Rightarrow>
                         (Inr \<lparr>statusCode = 200, headers = Some json_headers,
                               body = JSON_stringify L (JObj book)\<rparr>, w2)))))"

definition updateBook :: "libs \<Rightarrow> event \<Rightarrow> world \<Rightarrow> (exn + response) \<times> world" where
  "updateBook L ev w = catch L (updateBook_try L ev w)"

definition deleteBook_try :: "libs \<Rightarrow> event \<Rightarrow> world \<Rightarrow> (exn + response) \<times> world" where
  "deleteBook_try L ev w =
     (case fetchBookById L (event_id ev) w of
        (Inl e, w1) \<Rightarrow> (Inl e, w1)
      | (Inr _, w1) \<Rightarrow>
          (case docClient_delete (event_id ev) w1 of
             (Inl e, w2) \<Rightarrow> (Inl e, w2)
           | (Inr _, w2) \<Rightarrow>
               (Inr \<lparr>statusCode = 204, headers = None,
                     body = ''Record deleted successfully ''\<rparr>, w2)))"

definition deleteBook :: "libs \<Rightarrow> event \<Rightarrow> world \<Rightarrow> (exn + response) \<times> world" where
  "deleteBook L ev w = catch L (deleteBook_try L ev w)"

text \<open>\<^verbatim>\<open>listBook\<close> has no \<^verbatim>\<open>try\<close>: a rejected scan leaves the handler as it is.\<close>

definition listBook :: "libs \<Rightarrow> event \<Rightarrow> world \<Rightarrow> (exn + response) \<times> world" where
  "listBook L ev w =
     (case docClient_scan w of
        (Inl e, w') \<Rightarrow> (Inl e, w')
      | (Inr items, w') \<Rightarrow>
          (Inr \<lparr>statusCode = 200, headers = Some json_headers,
                body = JSON_stringify L (JArr (map JObj items))\<rparr>, w'))"

subsection \<open>An instance of the libraries, and sample requests\<close>

text \<open>
  The theorems below hold for every instance of \<open>libs\<close>. To run the handlers on
  concrete requests, \<open>sample_libs\<close> fixes one: \<^verbatim>\<open>JSON.stringify\<close>, plain and indented,
  for values whose strings hold no control characters; \<^verbatim>\<open>JSON.parse\<close> on the request
  bodies used here; and for \<open>Date_parse\<close> one text that \<^verbatim>\<open>Date.parse\<close> of Node.js
  accepts, none of the sample bodies holding a date outside the ISO format.
\<close>

fun escape :: "string \<Rightarrow> string" where
  "escape [] = []"
| "escape (c # cs) =
     (if c = CHR 0x22 \<or> c = CHR 0x5C then CHR 0x5C # c # escape cs else c # escape cs)"

definition quote :: "string \<Rightarrow> string" where
  "quote s = CHR 0x22 # escape s @ [CHR 0x22]"

fun sample_stringify :: "json \<Rightarrow> string" where
  "sample_stringify JNull = ''null''"
| "sample_stringify (JBool b) = (if b then ''true'' else ''false'')"
| "sample_stringify (JNum n) = n"
| "sample_stringify (JStr s) = quote s"
| "sample_stringify (JArr xs) = CHR ''['' # join '','' (map sample_stringify xs) @ '']''"
| "sample_stringify (JObj fs) =
     CHR ''{'' # join '','' (map (\<lambda>(k, v). quote k @ CHR '':'' # sample_stringify v) fs) @ ''}''"

text \<open>\<open>ind\<close> is the indentation of the line the value starts on.\<close>

fun sample_indent :: "string \<Rightarrow> json \<Rightarrow> string" where
  "sample_indent ind JNull = ''null''"
| "sample_indent ind (JBool b) = (if b then ''true'' else ''false'')"
| "sample_indent ind (JNum n) = n"
| "sample_indent ind (JStr s) = quote s"
| "sample_indent ind (JArr xs) =
     (if xs = [] then ''[]''
      else CHR ''['' # CHR 0x0A # ind @ ''  ''
        @ join (CHR '','' # CHR 0x0A # ind @ ''  '') (map (sample_indent (ind @ ''  '')) xs)
        @ CHR 0x0A # ind @ '']'')"
| "sample_indent ind (JObj fs) =
     (if fs = [] then ''{}''
      else CHR ''{'' # CHR 0x0A # ind @ ''  ''
        @ join (CHR '','' # CHR 0x0A # ind @ ''  '')
            (map (\<lambda>(k, v). quote k @ '': '' @ sample_indent (ind @ ''  '') v) fs)
        @ CHR 0x0A # ind @ ''}'')"

definition book_A :: item where
  "book_A =
     [(''author'', JStr ''A''), (''title'', JStr ''T''), (''description'', JStr ''D''),
      (''publication_date'', JStr ''2020-01-01''), (''available'', JBool True)]"

definition book_B :: item where
  "book_B =
     [(''ISBN'', JStr ''978-0''), (''author'', JStr ''B''), (''title'', JStr ''U''),
      (''description'', JStr ''E''), (''publication_date'', JStr ''2021-06-30''),
      (''available'', JBool False)]"

text \<open>A payload whose values pass the schema by its casts.\<close>

definition book_cast :: item where
  "book_cast =
     [(''author'', JNum ''123''), (''title'', JBool True), (''description'', JStr ''D''),
      (''publication_date'', JStr ''2020-01-01T10:00:00Z''), (''available'', JStr ''true'')]"

text \<open>A payload without author and publication date, and with an empty description.\<close>

definition book_partial :: item where
  "book_partial =
     [(''title'', JStr ''T''), (''description'', JStr []), (''available'', JBool True)]"

text \<open>A payload whose author is an object with a \<^verbatim>\<open>toString\<close> of its own.\<close>

definition book_throw :: item where
  "book_throw =
     [(''author'', JObj [(''toString'', JNum ''1'')]), (''title'', JStr ''T''),
      (''description'', JStr ''D''), (''publication_date'', JStr ''2020-01-01''),
      (''available'', JBool True)]"

definition body_A :: string where
  "body_A = ''{\"author\":\"A\",\"title\":\"T\",\"description\":\"D\",\"publication_date\":\"2020-01-01\",\"available\":true}''"

definition body_B :: string where
  "body_B = ''{\"ISBN\":\"978-0\",\"author\":\"B\",\"title\":\"U\",\"description\":\"E\",\"publication_date\":\"2021-06-30\",\"available\":false}''"

definition body_cast :: string where
  "body_cast = ''{\"author\":123,\"title\":true,\"description\":\"D\",\"publication_date\":\"2020-01-01T10:00:00Z\",\"available\":\"true\"}''"

definition body_partial :: string where
  "body_partial = ''{\"title\":\"T\",\"description\":\"\",\"available\":true}''"

definition body_throw :: string where
  "body_throw = ''{\"author\":{\"toString\":1},\"title\":\"T\",\"description\":\"D\",\"publication_date\":\"2020-01-01\",\"available\":true}''"

definition body_truncated :: string where
  "body_truncated = ''{\"author\":''"

definition sample_parse :: "string \<Rightarrow> string + json" where
  "sample_parse s =
     (if s = body_A then Inr (JObj book_A)
      else if s = body_B then Inr (JObj book_B)
      else if s = body_cast then Inr (JObj book_cast)
      else if s = body_partial then Inr (JObj book_partial)
      else if s = body_throw then Inr (JObj book_throw)
      else if s = ''{}'' then Inr (JObj [])
      else if s = ''null'' then Inr JNull
      else if s = body_truncated then Inl ''Unexpected end of JSON input''
      else Inl ''Unexpected token'')"

definition sample_libs :: libs where
  "sample_libs =
     \<lparr>JSON_parse = sample_parse,
      JSON_stringify = sample_stringify,
      JSON_stringify_indent = sample_indent [],
      Date_parse = (\<lambda>s. s = ''Jan 1 2020'')\<rparr>"

text \<open>An identifier as \<^verbatim>\<open>v4()\<close> writes them, an empty table, and a table of one book.\<close>

definition uuid_1 :: string where
  "uuid_1 = ''110ec58a-a0f2-4ac4-8393-c866d813b8d1''"

definition world_0 :: world where
  "world_0 = \<lparr>table = [], faults = []\<rparr>"

definition world_1 :: world where
  "world_1 = \<lparr>table = [(uuid_1, AList.update ''ISBN'' (JStr uuid_1) book_A)], faults = []\<rparr>"

text \<open>The table of one book, when DynamoDB rejects the next request.\<close>

definition world_down :: world where
  "world_down = world_1\<lparr>faults := [Some ''ProvisionedThroughputExceededException'']\<rparr>"


section \<open>Properties of the handlers\<close>

subsection \<open>Requests to the table\<close>

lemma request_snd: "snd (request w) = w\<lparr>faults := tl (faults w)\<rparr>"
  by (cases "faults w") (simp_all add: request_def)

lemma request_table: "table (snd (request w)) = table w"
  by (simp add: request_snd)

lemma request_served: "serves (Suc n) w \<Longrightarrow> fst (request w) = None"
  by (cases "faults w") (simp_all add: request_def serves_def)

lemma serves_request: "serves (Suc n) w \<Longrightarrow> serves n (snd (request w))"
  by (cases "faults w") (simp_all add: request_def serves_def)

lemma serves_less: "serves (Suc n) w \<Longrightarrow> serves n w"
  using set_take_subset_set_take [of n "Suc n" "faults w"]
  by (auto simp: serves_def list_all_iff)

lemma request_rejected: "faults w = Some m # fs \<Longrightarrow> request w = (Some m, w\<lparr>faults := fs\<rparr>)"
  by (simp add: request_def)

lemma update_fresh: "k \<notin> fst ` set al \<Longrightarrow> AList.update k v al = al @ [(k, v)]"
  by (induction al) auto

lemma docClient_get_served:
  "serves (Suc n) w \<Longrightarrow> docClient_get k w = (Inr (map_of (table w) k), snd (request w))"
  using request_served [of n w] request_table [of w]
  by (cases "request w") (simp add: docClient_get_def)

lemma docClient_put_served:
  "serves (Suc n) w \<Longrightarrow> map_of it ''ISBN'' = Some (JStr k) \<Longrightarrow>
   docClient_put it w = (Inr (), (snd (request w))\<lparr>table := AList.update k it (table w)\<rparr>)"
  using request_served [of n w] request_table [of w]
  by (cases "request w") (simp add: docClient_put_def)

lemma docClient_delete_served:
  "serves (Suc n) w \<Longrightarrow>
   docClient_delete k w = (Inr (), (snd (request w))\<lparr>table := AList.delete k (table w)\<rparr>)"
  using request_served [of n w] request_table [of w]
  by (cases "request w") (simp add: docClient_delete_def)

lemma docClient_get_table: "table (snd (docClient_get k w)) = table w"
  using request_table [of w]
  by (cases "request w") (simp add: docClient_get_def split: option.splits)

lemma fetchBookById_served:
  "serves (Suc n) w \<Longrightarrow>
   fetchBookById L k w =
     (case map_of (table w) k of
        None \<Rightarrow> Inl (HttpError 404 (JSON_stringify L (JObj [(''error'', JStr ''not found'')])))
      | Some it \<Rightarrow> Inr it, snd (request w))"
  by (simp add: fetchBookById_def docClient_get_served split: option.splits)

lemma fetchBookById_table: "table (snd (fetchBookById L k w)) = table w"
  using docClient_get_table [of k w]
  by (cases "docClient_get k w") (auto simp: fetchBookById_def split: sum.splits option.splits)

lemma fetchBookById_rejected:
  "faults w = Some m # fs \<Longrightarrow> fetchBookById L k w = (Inl (OtherError m), w\<lparr>faults := fs\<rparr>)"
  by (simp add: fetchBookById_def docClient_get_def request_rejected)

lemma fetchBookById_then_rejected:
  assumes "faults w = None # Some m # fs" and "map_of (table w) k = Some old"
  shows "fetchBookById L k w = (Inr old, w\<lparr>faults := Some m # fs\<rparr>)"
  by (simp add: fetchBookById_def docClient_get_def request_def assms)

lemma book_key: "map_of (AList.update ''ISBN'' (JStr k) fs) ''ISBN'' = Some (JStr k)"
  by (simp add: update_conv')


lemma serves_2: "serves 2 w \<Longrightarrow> serves (Suc 0) w \<and> serves (Suc 0) (snd (request w))"
proof -
  assume "serves 2 w"
  then have s: "serves (Suc (Suc 0)) w" by (simp add: numeral_2_eq_2)
  show ?thesis using serves_less [OF s] serves_request [OF s] by simp
qed

subsection \<open>The outcome of each handler on a table that serves its requests\<close>

lemma createBook_try_valid:
  assumes "serves (Suc n) w"
    and "JSON_parse L (event_body ev) = Inr reqBody"
    and "schema_validate L reqBody = Inr ()"
  shows "createBook_try L uuid ev w =
     (Inr \<lparr>statusCode = 201, headers = Some json_headers,
           body = JSON_stringify L (JObj (AList.update ''ISBN'' (JStr uuid) (spread reqBody)))\<rparr>,
      (snd (request w))\<lparr>table :=
         AList.update uuid (AList.update ''ISBN'' (JStr uuid) (spread reqBody)) (table w)\<rparr>)"
  using docClient_put_served [OF assms(1) book_key, of uuid "spread reqBody"]
  by (simp add: createBook_try_def assms(2,3) Let_def)

lemma updateBook_try_valid:
  assumes "serves 2 w"
    and "map_of (table w) (event_id ev) = Some old"
    and "JSON_parse L (event_body ev) = Inr reqBody"
    and "schema_validate L reqBody = Inr ()"
  shows "updateBook_try L ev w =
     (Inr \<lparr>statusCode = 200, headers = Some json_headers,
           body = JSON_stringify L
             (JObj (AList.update ''ISBN'' (JStr (event_id ev)) (spread reqBody)))\<rparr>,
      (snd (request (snd (request w))))\<lparr>table :=
         AList.update (event_id ev)
           (AList.update ''ISBN'' (JStr (event_id ev)) (spread reqBody)) (table w)\<rparr>)"
proof -
  have s: "serves (Suc 0) w" "serves (Suc 0) (snd (request w))"
    using serves_2 [OF assms(1)] by simp_all
  have f: "fetchBookById L (event_id ev) w = (Inr old, snd (request w))"
    by (simp add: fetchBookById_served [OF s(1)] assms(2))
  show ?thesis
    using docClient_put_served [OF s(2) book_key, of "event_id ev" "spread reqBody"]
    by (simp add: updateBook_try_def f assms(3,4) request_table Let_def)
qed

lemma updateBook_try_absent:
  assumes "serves (Suc n) w" and "map_of (table w) (event_id ev) = None"
  shows "updateBook_try L ev w =
     (Inl (HttpError 404 (JSON_stringify L (JObj [(''error'', JStr ''not found'')]))),
      snd (request w))"
  by (simp add: updateBook_try_def fetchBookById_served [OF assms(1)] assms(2))

lemma deleteBook_try_found:
  assumes "serves 2 w" and "map_of (table w) (event_id ev) = Some old"
  shows "deleteBook_try L ev w =
     (Inr \<lparr>statusCode = 204, headers = None, body = ''Record deleted successfully ''\<rparr>,
      (snd (request (snd (request w))))\<lparr>table := AList.delete (event_id ev) (table w)\<rparr>)"
proof -
  have s: "serves (Suc 0) w" "serves (Suc 0) (snd (request w))"
    using serves_2 [OF assms(1)] by simp_all
  have f: "fetchBookById L (event_id ev) w = (Inr old, snd (request w))"
    by (simp add: fetchBookById_served [OF s(1)] assms(2))
  show ?thesis
    using docClient_delete_served [OF s(2), of "event_id ev"]
    by (simp add: deleteBook_try_def f request_table)
qed

lemma getBook_served:
  assumes "serves (Suc n) w"
  shows "getBook L ev w =
     (case map_of (table w) (event_id ev) of
        None \<Rightarrow>
          Inr \<lparr>statusCode = 404, headers = Some json_headers,
               body = JSON_stringify L (JObj [(''error'', JStr ''not found'')])\<rparr>
      | Some it \<Rightarrow>
          Inr \<lparr>statusCode = 200, headers = Some json_headers,
               body = JSON_stringify L (JObj it)\<rparr>,
      snd (request w))"
  by (simp add: getBook_def getBook_try_def catch_def handleError_def
      fetchBookById_served [OF assms] split: option.splits)


lemma docClient_put_Inl: "docClient_put it w = (Inl e, w') \<Longrightarrow> table w' = table w"
  using request_table [of w]
  by (cases "request w") (auto simp: docClient_put_def split: option.splits json.splits)

lemma docClient_delete_Inl: "docClient_delete k w = (Inl e, w') \<Longrightarrow> table w' = table w"
  using request_table [of w]
  by (cases "request w") (auto simp: docClient_delete_def split: option.splits)

lemma fetchBookById_eq: "fetchBookById L k w = (r, w') \<Longrightarrow> table w' = table w"
  using fetchBookById_table [of L k w] by simp

subsection \<open>What the \<^verbatim>\<open>try\<close> blocks return and throw\<close>

lemma createBook_try_Inl:
  "createBook_try L uuid ev w = (Inl e, w') \<Longrightarrow> table w' = table w"
  by (auto simp: createBook_try_def Let_def split: sum.splits prod.splits
      dest: docClient_put_Inl)

lemma createBook_try_Inr:
  "createBook_try L uuid ev w = (Inr res, w') \<Longrightarrow>
   statusCode res = 201 \<and> headers res = Some json_headers"
  by (auto simp: createBook_try_def Let_def split: sum.splits prod.splits)

lemma getBook_try_Inr:
  "getBook_try L ev w = (Inr res, w') \<Longrightarrow>
   statusCode res = 200 \<and> headers res = Some json_headers"
  by (auto simp: getBook_try_def split: sum.splits prod.splits)

lemma updateBook_try_Inl:
  "updateBook_try L ev w = (Inl e, w') \<Longrightarrow> table w' = table w"
  by (auto simp: updateBook_try_def Let_def split: sum.splits prod.splits
      dest!: docClient_put_Inl fetchBookById_eq)

lemma updateBook_try_Inr:
  "updateBook_try L ev w = (Inr res, w') \<Longrightarrow>
   statusCode res = 200 \<and> headers res = Some json_headers"
  by (auto simp: updateBook_try_def Let_def split: sum.splits prod.splits)

lemma deleteBook_try_Inl:
  "deleteBook_try L ev w = (Inl e, w') \<Longrightarrow> table w' = table w"
  by (auto simp: deleteBook_try_def split: sum.splits prod.splits
      dest!: docClient_delete_Inl fetchBookById_eq)

lemma deleteBook_try_Inr:
  "deleteBook_try L ev w = (Inr res, w') \<Longrightarrow> statusCode res = 204 \<and> headers res = None"
  by (auto simp: deleteBook_try_def split: sum.splits prod.splits)

lemma handleError_Inl: "handleError L e = Inl e' \<Longrightarrow> e' = e \<and> (\<exists>m. e = OtherError m)"
  by (cases e) (auto simp: handleError_def)

lemma handleError_Inr: "handleError L e = Inr res \<Longrightarrow> headers res = Some json_headers"
  by (cases e) (auto simp: handleError_def)

lemma handleError_converts: "(\<exists>res. handleError L e = Inr res) = (\<forall>m. e \<noteq> OtherError m)"
  by (cases e) (simp_all add: handleError_def)

lemma catch_snd: "snd (catch L r) = snd r"
  by (cases r) (simp add: catch_def split: sum.splits)

lemma catch_Inl: "fst (catch L r) = Inl e \<Longrightarrow> fst r = Inl e \<and> (\<exists>m. e = OtherError m)"
  by (cases r) (auto simp: catch_def split: sum.splits dest: handleError_Inl)

lemma catch_Inr:
  "fst (catch L r) = Inr res \<Longrightarrow>
   fst r = Inr res \<or> (\<exists>e. fst r = Inl e \<and> handleError L e = Inr res)"
  by (cases r) (auto simp: catch_def split: sum.splits)

lemma createBook_headers:
  assumes "fst (createBook L uuid ev w) = Inr res"
  shows "headers res = Some json_headers"
proof -
  obtain r w' where t: "createBook_try L uuid ev w = (r, w')" by (cases "createBook_try L uuid ev w")
  show ?thesis
    using assms createBook_try_Inr [of L uuid ev w res w'] catch_Inr [of L "(r, w')" res]
    by (auto simp: createBook_def t dest: handleError_Inr)
qed

lemma getBook_headers:
  assumes "fst (getBook L ev w) = Inr res"
  shows "headers res = Some json_headers"
proof -
  obtain r w' where t: "getBook_try L ev w = (r, w')" by (cases "getBook_try L ev w")
  show ?thesis
    using assms getBook_try_Inr [of L ev w res w'] catch_Inr [of L "(r, w')" res]
    by (auto simp: getBook_def t dest: handleError_Inr)
qed

lemma updateBook_headers:
  assumes "fst (updateBook L ev w) = Inr res"
  shows "headers res = Some json_headers"
proof -
  obtain r w' where t: "updateBook_try L ev w = (r, w')" by (cases "updateBook_try L ev w")
  show ?thesis
    using assms updateBook_try_Inr [of L ev w res w'] catch_Inr [of L "(r, w')" res]
    by (auto simp: updateBook_def t dest: handleError_Inr)
qed

subsection \<open>Validation\<close>

lemma schema_validate_object:
  "schema_validate L (JObj fs) =
     (if list_ex isl (field_results L schema fs) then Inl (OtherError ''TypeError'')
      else case field_errors L fs of
        [] \<Rightarrow> Inr ()
      | m # ms \<Rightarrow> Inl (ValidationError (m # ms)))"
  by (simp add: schema_validate_def yup_validate_def field_errors_def split: list.splits)


lemma schema_validate_Inr: "schema_validate L v = Inr () \<Longrightarrow> \<exists>fs. v = JObj fs"
  by (cases v) (simp_all add: schema_validate_def yup_validate_def)







subsection \<open>The sample requests\<close>

lemma sample_valid_A: "schema_validate sample_libs (JObj book_A) = Inr ()"
  by code_simp

lemma sample_valid_B: "schema_validate sample_libs (JObj book_B) = Inr ()"
  by code_simp

lemma sample_valid_cast: "schema_validate sample_libs (JObj book_cast) = Inr ()"
  by code_simp

lemma sample_parse_A: "JSON_parse sample_libs body_A = Inr (JObj book_A)"
  by (simp add: sample_libs_def sample_parse_def)

lemma sample_parse_B: "JSON_parse sample_libs body_B = Inr (JObj book_B)"
  by (simp add: sample_libs_def sample_parse_def body_A_def body_B_def)

lemma sample_parse_cast: "JSON_parse sample_libs body_cast = Inr (JObj book_cast)"
  by (simp add: sample_libs_def sample_parse_def body_A_def body_B_def body_cast_def)

lemma sample_parse_partial: "JSON_parse sample_libs body_partial = Inr (JObj book_partial)"
  by (simp add: sample_libs_def sample_parse_def body_A_def body_B_def body_cast_def
      body_partial_def)




lemma sample_parse_truncated:
  "JSON_parse sample_libs body_truncated = Inl ''Unexpected end of JSON input''"
  by (simp add: sample_libs_def sample_parse_def body_A_def body_B_def body_cast_def
      body_partial_def body_throw_def body_truncated_def)

lemma sample_item_A:
  "AList.update ''ISBN'' (JStr uuid_1) book_A = book_A @ [(''ISBN'', JStr uuid_1)]"
  by (simp add: book_A_def)

lemma sample_item_B:
  "AList.update ''ISBN'' (JStr uuid_1) book_B =
     [(''ISBN'', JStr uuid_1), (''author'', JStr ''B''), (''title'', JStr ''U''),
      (''description'', JStr ''E''), (''publication_date'', JStr ''2021-06-30''),
      (''available'', JBool False)]"
  by (simp add: book_B_def)

lemma sample_json_A:
  "JSON_stringify sample_libs (JObj (book_A @ [(''ISBN'', JStr uuid_1)])) =
     ''{\"author\":\"A\",\"title\":\"T\",\"description\":\"D\",\"publication_date\":\"2020-01-01\",\"available\":true,\"ISBN\":\"110ec58a-a0f2-4ac4-8393-c866d813b8d1\"}''"
  by (simp add: sample_libs_def quote_def uuid_1_def book_A_def)

lemma sample_json_B:
  "JSON_stringify sample_libs
     (JObj [(''ISBN'', JStr uuid_1), (''author'', JStr ''B''), (''title'', JStr ''U''),
       (''description'', JStr ''E''), (''publication_date'', JStr ''2021-06-30''),
       (''available'', JBool False)]) =
     ''{\"ISBN\":\"110ec58a-a0f2-4ac4-8393-c866d813b8d1\",\"author\":\"B\",\"title\":\"U\",\"description\":\"E\",\"publication_date\":\"2021-06-30\",\"available\":false}''"
  by (simp add: sample_libs_def quote_def uuid_1_def)

lemma sample_json_not_found:
  "JSON_stringify sample_libs (JObj [(''error'', JStr ''not found'')]) =
     ''{\"error\":\"not found\"}''"
  by (simp add: sample_libs_def quote_def)

lemma sample_results_partial:
  "field_results sample_libs schema book_partial =
     [Inr (Some ''author is a required field''), Inr None,
      Inr (Some ''description is a required field''),
      Inr (Some ''publication_date is a required field''), Inr None]"
  by code_simp


text \<open>
  Values that pass the schema by yup's casts: a number and a boolean for the strings,
  the text \<^verbatim>\<open>true\<close> for the boolean, a date with a time.
\<close>

lemma sample_create_cast:
  "fst (createBook sample_libs uuid_1 \<lparr>event_body = body_cast, event_id = []\<rparr> world_0) =
     Inr \<lparr>statusCode = 201, headers = Some json_headers,
          body = JSON_stringify sample_libs
            (JObj (AList.update ''ISBN'' (JStr uuid_1) book_cast))\<rparr>"
proof -
  have p: "JSON_parse sample_libs (event_body \<lparr>event_body = body_cast, event_id = []\<rparr>) =
      Inr (JObj book_cast)"
    by (simp add: sample_parse_cast)
  have s: "serves (Suc 0) world_0"
    by (simp add: serves_def world_0_def)
  show ?thesis
    using createBook_try_valid [OF s p sample_valid_cast, of uuid_1]
    by (simp add: createBook_def catch_def)
qed

lemma sample_errors_partial:
  "field_errors sample_libs book_partial =
     [''author is a required field'', ''description is a required field'',
      ''publication_date is a required field'']"
  by (simp add: field_errors_def sample_results_partial messages_def List.map_filter_def)

lemma serves_world_0: "serves n world_0"
  by (simp add: serves_def world_0_def)

lemma serves_world_1: "serves n world_1"
  by (simp add: serves_def world_1_def)

lemma table_world_1: "table world_1 = [(uuid_1, book_A @ [(''ISBN'', JStr uuid_1)])]"
  by (simp add: world_1_def sample_item_A)

lemma absent_world_1: "map_of (table world_1) ''no-such-id'' = None"
  by (simp add: table_world_1 uuid_1_def)

subsection \<open>The claims\<close>

text \<open>
  C1. Update of an existing identifier with a body that parses and passes the schema,
  on a table that serves the two requests: the response is 200 with the new record as
  JSON; the record is the properties of the payload with \<^verbatim>\<open>ISBN\<close> set to the path
  identifier (an \<^verbatim>\<open>ISBN\<close> of the payload is overridden); it replaces the whole item
  stored under that identifier, whatever the old item was, and no other key changes.
\<close>

theorem updateBook_overwrites:
  assumes "map_of (table w) (event_id ev) = Some old"
    and "serves 2 w"
    and "JSON_parse L (event_body ev) = Inr reqBody"
    and "schema_validate L reqBody = Inr ()"
  defines "book \<equiv> AList.update ''ISBN'' (JStr (event_id ev)) (spread reqBody)"
  shows "fst (updateBook L ev w) =
           Inr \<lparr>statusCode = 200, headers = Some json_headers,
                body = JSON_stringify L (JObj book)\<rparr>
       \<and> map_of (table (snd (updateBook L ev w))) = (map_of (table w))(event_id ev \<mapsto> book)
       \<and> map_of book = (map_of (spread reqBody))(''ISBN'' \<mapsto> JStr (event_id ev))
       \<and> map fst (table (snd (updateBook L ev w))) = map fst (table w)"
proof -
  note u = updateBook_try_valid [OF assms(2,1,3,4), folded book_def]
  have a: "fst (updateBook L ev w) =
      Inr \<lparr>statusCode = 200, headers = Some json_headers, body = JSON_stringify L (JObj book)\<rparr>"
    by (simp add: updateBook_def catch_def u)
  have t: "table (snd (updateBook L ev w)) = AList.update (event_id ev) book (table w)"
    by (simp add: updateBook_def catch_def u)
  have b: "map_of (table (snd (updateBook L ev w))) = (map_of (table w))(event_id ev \<mapsto> book)"
    by (simp add: t update_conv')
  have c: "map_of book = (map_of (spread reqBody))(''ISBN'' \<mapsto> JStr (event_id ev))"
    by (simp add: book_def update_conv')
  have "event_id ev \<in> fst ` set (table w)"
    using assms(1) by (metis domI dom_map_of_conv_image_fst)
  then have d: "map fst (table (snd (updateBook L ev w))) = map fst (table w)"
    by (simp add: t update_keys)
  show ?thesis using a b c d by blast
qed

theorem updateBook_overwrites_witness:
  "map_of (table world_1) uuid_1 = Some (AList.update ''ISBN'' (JStr uuid_1) book_A)
 \<and> serves 2 world_1
 \<and> JSON_parse sample_libs body_B = Inr (JObj book_B)
 \<and> schema_validate sample_libs (JObj book_B) = Inr ()
 \<and> fst (updateBook sample_libs \<lparr>event_body = body_B, event_id = uuid_1\<rparr> world_1) =
      Inr \<lparr>statusCode = 200, headers = Some [(''content-type'', ''application/json'')],
           body = ''{\"ISBN\":\"110ec58a-a0f2-4ac4-8393-c866d813b8d1\",\"author\":\"B\",\"title\":\"U\",\"description\":\"E\",\"publication_date\":\"2021-06-30\",\"available\":false}''\<rparr>
 \<and> map_of (table (snd (updateBook sample_libs \<lparr>event_body = body_B, event_id = uuid_1\<rparr> world_1))) uuid_1 =
      Some [(''ISBN'', JStr uuid_1), (''author'', JStr ''B''), (''title'', JStr ''U''),
            (''description'', JStr ''E''), (''publication_date'', JStr ''2021-06-30''),
            (''available'', JBool False)]"
proof -
  let ?ev = "\<lparr>event_body = body_B, event_id = uuid_1\<rparr>"
  have h1: "map_of (table world_1) (event_id ?ev) = Some (AList.update ''ISBN'' (JStr uuid_1) book_A)"
    by (simp add: world_1_def)
  have h2: "serves 2 world_1"
    by (simp add: serves_def world_1_def)
  have h3: "JSON_parse sample_libs (event_body ?ev) = Inr (JObj book_B)"
    by (simp add: sample_libs_def sample_parse_def body_A_def body_B_def)
  note h4 = sample_valid_B
  have item: "AList.update ''ISBN'' (JStr uuid_1) book_B =
      [(''ISBN'', JStr uuid_1), (''author'', JStr ''B''), (''title'', JStr ''U''),
       (''description'', JStr ''E''), (''publication_date'', JStr ''2021-06-30''),
       (''available'', JBool False)]"
    by (simp add: book_B_def)
  have js: "JSON_stringify sample_libs
      (JObj [(''ISBN'', JStr uuid_1), (''author'', JStr ''B''), (''title'', JStr ''U''),
       (''description'', JStr ''E''), (''publication_date'', JStr ''2021-06-30''),
       (''available'', JBool False)]) =
      ''{\"ISBN\":\"110ec58a-a0f2-4ac4-8393-c866d813b8d1\",\"author\":\"B\",\"title\":\"U\",\"description\":\"E\",\"publication_date\":\"2021-06-30\",\"available\":false}''"
    by (simp add: sample_libs_def quote_def uuid_1_def)
  show ?thesis
    using updateBook_overwrites [OF h1 h2 h3 h4] h1 h2 h3 h4
    by (simp add: item js json_headers_def)
qed

text \<open>
  C2, as the code has it. A valid creation request on a table that serves the write
  answers 201 with the record as JSON, and that record is stored under the identifier
  \<^verbatim>\<open>v4()\<close> returned. The record is the properties of the payload with \<^verbatim>\<open>ISBN\<close>
  set to that identifier: the submitted fields followed by \<^verbatim>\<open>ISBN\<close> when the payload
  has no \<^verbatim>\<open>ISBN\<close> of its own, which is overridden otherwise. The handler does not
  compare the identifier with the keys of the table: the item is a new one exactly when
  the generator returns an unused identifier.
\<close>

theorem createBook_persists:
  fixes uuid :: string
  assumes "serves 1 w"
    and "JSON_parse L (event_body ev) = Inr reqBody"
    and "schema_validate L reqBody = Inr ()"
  defines "book \<equiv> AList.update ''ISBN'' (JStr uuid) (spread reqBody)"
  shows "fst (createBook L uuid ev w) =
           Inr \<lparr>statusCode = 201, headers = Some json_headers,
                body = JSON_stringify L (JObj book)\<rparr>
       \<and> map_of (table (snd (createBook L uuid ev w))) = (map_of (table w))(uuid \<mapsto> book)
       \<and> map_of book = (map_of (spread reqBody))(''ISBN'' \<mapsto> JStr uuid)
       \<and> (''ISBN'' \<notin> fst ` set (spread reqBody) \<longrightarrow>
            book = spread reqBody @ [(''ISBN'', JStr uuid)])
       \<and> (uuid \<notin> fst ` set (table w) \<longrightarrow>
            table (snd (createBook L uuid ev w)) = table w @ [(uuid, book)])"
proof -
  have s: "serves (Suc 0) w" using assms(1) by simp
  note c = createBook_try_valid [OF s assms(2,3), of uuid, folded book_def]
  have a: "fst (createBook L uuid ev w) =
      Inr \<lparr>statusCode = 201, headers = Some json_headers, body = JSON_stringify L (JObj book)\<rparr>"
    by (simp add: createBook_def catch_def c)
  have t: "table (snd (createBook L uuid ev w)) = AList.update uuid book (table w)"
    by (simp add: createBook_def catch_def c)
  have b: "map_of (table (snd (createBook L uuid ev w))) = (map_of (table w))(uuid \<mapsto> book)"
    by (simp add: t update_conv')
  have d: "map_of book = (map_of (spread reqBody))(''ISBN'' \<mapsto> JStr uuid)"
    by (simp add: book_def update_conv')
  have e: "''ISBN'' \<notin> fst ` set (spread reqBody) \<longrightarrow>
      book = spread reqBody @ [(''ISBN'', JStr uuid)]"
    by (simp add: book_def update_fresh)
  have f: "uuid \<notin> fst ` set (table w) \<longrightarrow>
      table (snd (createBook L uuid ev w)) = table w @ [(uuid, book)]"
    by (simp add: t update_fresh)
  show ?thesis using a b d e f by blast
qed

theorem createBook_persists_witness:
  "serves 1 world_0
 \<and> JSON_parse sample_libs body_A = Inr (JObj book_A)
 \<and> schema_validate sample_libs (JObj book_A) = Inr ()
 \<and> fst (createBook sample_libs uuid_1 \<lparr>event_body = body_A, event_id = []\<rparr> world_0) =
      Inr \<lparr>statusCode = 201, headers = Some [(''content-type'', ''application/json'')],
           body = ''{\"author\":\"A\",\"title\":\"T\",\"description\":\"D\",\"publication_date\":\"2020-01-01\",\"available\":true,\"ISBN\":\"110ec58a-a0f2-4ac4-8393-c866d813b8d1\"}''\<rparr>
 \<and> table (snd (createBook sample_libs uuid_1 \<lparr>event_body = body_A, event_id = []\<rparr> world_0)) =
      [(uuid_1, book_A @ [(''ISBN'', JStr uuid_1)])]"
proof -
  let ?ev = "\<lparr>event_body = body_A, event_id = []\<rparr>"
  have h1: "serves 1 world_0" by (rule serves_world_0)
  have h2: "JSON_parse sample_libs (event_body ?ev) = Inr (JObj book_A)"
    by (simp add: sample_parse_A)
  have e: "table world_0 = []" by (simp add: world_0_def)
  show ?thesis
    using createBook_persists [OF h1 h2 sample_valid_A, of uuid_1] h1 h2 sample_valid_A
    by (simp add: sample_item_A sample_json_A json_headers_def e)
qed

text \<open>
  C2 as stated fails. With \<^verbatim>\<open>v4()\<close> returning the same identifier twice, the second
  create answers 201 under the identifier the first one assigned, and replaces its
  record; and the \<^verbatim>\<open>ISBN\<close> the second payload submitted (\<^verbatim>\<open>978-0\<close>) is not in the
  record returned.
\<close>

theorem createBook_reuses_identifier:
  "snd (createBook sample_libs uuid_1 \<lparr>event_body = body_A, event_id = []\<rparr> world_0) = world_1
 \<and> map_of (table world_1) uuid_1 = Some (book_A @ [(''ISBN'', JStr uuid_1)])
 \<and> JSON_parse sample_libs body_B = Inr (JObj book_B)
 \<and> schema_validate sample_libs (JObj book_B) = Inr ()
 \<and> map_of book_B ''ISBN'' = Some (JStr ''978-0'')
 \<and> fst (createBook sample_libs uuid_1 \<lparr>event_body = body_B, event_id = []\<rparr> world_1) =
      Inr \<lparr>statusCode = 201, headers = Some [(''content-type'', ''application/json'')],
           body = ''{\"ISBN\":\"110ec58a-a0f2-4ac4-8393-c866d813b8d1\",\"author\":\"B\",\"title\":\"U\",\"description\":\"E\",\"publication_date\":\"2021-06-30\",\"available\":false}''\<rparr>
 \<and> table (snd (createBook sample_libs uuid_1 \<lparr>event_body = body_B, event_id = []\<rparr> world_1)) =
      [(uuid_1,
        [(''ISBN'', JStr uuid_1), (''author'', JStr ''B''), (''title'', JStr ''U''),
         (''description'', JStr ''E''), (''publication_date'', JStr ''2021-06-30''),
         (''available'', JBool False)])]"
proof -
  let ?a = "\<lparr>event_body = body_A, event_id = []\<rparr>"
  let ?b = "\<lparr>event_body = body_B, event_id = []\<rparr>"
  have s0: "serves (Suc 0) world_0" by (rule serves_world_0)
  have s1: "serves (Suc 0) world_1" by (rule serves_world_1)
  have pa: "JSON_parse sample_libs (event_body ?a) = Inr (JObj book_A)"
    by (simp add: sample_parse_A)
  have pb: "JSON_parse sample_libs (event_body ?b) = Inr (JObj book_B)"
    by (simp add: sample_parse_B)
  have a: "snd (createBook sample_libs uuid_1 ?a world_0) = world_1"
    using createBook_try_valid [OF s0 pa sample_valid_A, of uuid_1]
    by (simp add: createBook_def catch_def request_def world_0_def world_1_def)
  have r1: "snd (request world_1) = world_1"
    by (simp add: request_def world_1_def)
  have b: "createBook sample_libs uuid_1 ?b world_1 =
      (Inr \<lparr>statusCode = 201, headers = Some json_headers,
            body = JSON_stringify sample_libs
              (JObj (AList.update ''ISBN'' (JStr uuid_1) book_B))\<rparr>,
       world_1\<lparr>table := AList.update uuid_1 (AList.update ''ISBN'' (JStr uuid_1) book_B)
         (table world_1)\<rparr>)"
    using createBook_try_valid [OF s1 pb sample_valid_B, of uuid_1]
    by (simp add: createBook_def catch_def r1)
  have i: "map_of book_B ''ISBN'' = Some (JStr ''978-0'')"
    by (simp add: book_B_def)
  show ?thesis
    using a i sample_parse_B sample_valid_B
    by (simp add: b sample_item_B sample_json_B json_headers_def table_world_1)
qed

text \<open>
  C3. Update of an identifier that is not in the table, on a table that serves the
  read: the response is 404 and the table is unchanged, whatever the body is; the
  outcome is the same for every other body, which is never parsed.
\<close>

theorem updateBook_absent_404:
  assumes "map_of (table w) (event_id ev) = None"
    and "serves 1 w"
  shows "fst (updateBook L ev w) =
           Inr \<lparr>statusCode = 404, headers = Some json_headers,
                body = JSON_stringify L (JObj [(''error'', JStr ''not found'')])\<rparr>
       \<and> table (snd (updateBook L ev w)) = table w
       \<and> updateBook L (ev\<lparr>event_body := b\<rparr>) w = updateBook L ev w"
proof -
  have s: "serves (Suc 0) w" using assms(2) by simp
  note u = updateBook_try_absent [OF s assms(1), of L]
  have u': "updateBook_try L (ev\<lparr>event_body := b\<rparr>) w = updateBook_try L ev w"
    using updateBook_try_absent [OF s, of "ev\<lparr>event_body := b\<rparr>" L] assms(1)
    by (simp add: u)
  have a: "fst (updateBook L ev w) =
      Inr \<lparr>statusCode = 404, headers = Some json_headers,
           body = JSON_stringify L (JObj [(''error'', JStr ''not found'')])\<rparr>"
    by (simp add: updateBook_def catch_def u handleError_def)
  have b: "table (snd (updateBook L ev w)) = table w"
    by (simp add: updateBook_def catch_def u request_table)
  have c: "updateBook L (ev\<lparr>event_body := b\<rparr>) w = updateBook L ev w"
    by (simp add: updateBook_def u')
  show ?thesis using a b c by blast
qed

theorem updateBook_absent_404_witness:
  "map_of (table world_1) ''no-such-id'' = None
 \<and> serves 1 world_1
 \<and> fst (updateBook sample_libs \<lparr>event_body = body_truncated, event_id = ''no-such-id''\<rparr> world_1) =
      Inr \<lparr>statusCode = 404, headers = Some [(''content-type'', ''application/json'')],
           body = ''{\"error\":\"not found\"}''\<rparr>
 \<and> table (snd (updateBook sample_libs
        \<lparr>event_body = body_truncated, event_id = ''no-such-id''\<rparr> world_1)) = table world_1
 \<and> updateBook sample_libs \<lparr>event_body = body_A, event_id = ''no-such-id''\<rparr> world_1 =
      updateBook sample_libs \<lparr>event_body = body_truncated, event_id = ''no-such-id''\<rparr> world_1"
proof -
  let ?ev = "\<lparr>event_body = body_truncated, event_id = ''no-such-id''\<rparr>"
  have h1: "map_of (table world_1) (event_id ?ev) = None"
    by (simp add: absent_world_1)
  have h2: "serves 1 world_1" by (rule serves_world_1)
  show ?thesis
    using updateBook_absent_404 [OF h1 h2, of sample_libs body_A] h1 h2
    by (simp add: sample_json_not_found json_headers_def)
qed




text \<open>
  C5. Get, on a table that serves the read: 200 with the stored item as JSON when the
  identifier has one, 404 with \<^verbatim>\<open>{"error":"not found"}\<close> when it has none, and the
  status is 404 only in the second case. The table is unchanged.
\<close>

theorem getBook_found_or_404:
  assumes "serves 1 w"
  shows "(\<forall>it. map_of (table w) (event_id ev) = Some it \<longrightarrow>
            fst (getBook L ev w) =
              Inr \<lparr>statusCode = 200, headers = Some json_headers,
                   body = JSON_stringify L (JObj it)\<rparr>)
       \<and> (map_of (table w) (event_id ev) = None \<longrightarrow>
            fst (getBook L ev w) =
              Inr \<lparr>statusCode = 404, headers = Some json_headers,
                   body = JSON_stringify L (JObj [(''error'', JStr ''not found'')])\<rparr>)
       \<and> ((\<exists>res. fst (getBook L ev w) = Inr res \<and> statusCode res = 404) =
            (map_of (table w) (event_id ev) = None))
       \<and> table (snd (getBook L ev w)) = table w"
proof -
  have s: "serves (Suc 0) w" using assms by simp
  show ?thesis
    by (cases "map_of (table w) (event_id ev)")
      (simp_all add: getBook_served [OF s] request_table)
qed

theorem getBook_found_or_404_witness:
  "serves 1 world_1
 \<and> fst (getBook sample_libs \<lparr>event_body = [], event_id = uuid_1\<rparr> world_1) =
      Inr \<lparr>statusCode = 200, headers = Some [(''content-type'', ''application/json'')],
           body = ''{\"author\":\"A\",\"title\":\"T\",\"description\":\"D\",\"publication_date\":\"2020-01-01\",\"available\":true,\"ISBN\":\"110ec58a-a0f2-4ac4-8393-c866d813b8d1\"}''\<rparr>
 \<and> fst (getBook sample_libs \<lparr>event_body = [], event_id = ''no-such-id''\<rparr> world_1) =
      Inr \<lparr>statusCode = 404, headers = Some [(''content-type'', ''application/json'')],
           body = ''{\"error\":\"not found\"}''\<rparr>"
proof -
  have h: "serves 1 world_1" by (rule serves_world_1)
  have f: "map_of (table world_1) uuid_1 = Some (book_A @ [(''ISBN'', JStr uuid_1)])"
    by (simp add: table_world_1)
  show ?thesis
    using getBook_found_or_404 [OF h, of "\<lparr>event_body = [], event_id = uuid_1\<rparr>" sample_libs]
      getBook_found_or_404 [OF h, of "\<lparr>event_body = [], event_id = ''no-such-id''\<rparr>" sample_libs]
      h f absent_world_1
    by (simp add: sample_json_not_found sample_json_A json_headers_def)
qed

text \<open>
  C6. Delete of an existing identifier, on a table that serves the read and the delete:
  the response is 204 with the plain text \<^verbatim>\<open>Record deleted successfully \<close> and no
  \<^verbatim>\<open>headers\<close> field; the item is gone and no other key changes, so a get of that
  identifier that is served answers 404. Every response of the other four handlers
  carries the JSON \<^verbatim>\<open>content-type\<close> header.
\<close>

theorem deleteBook_removes:
  assumes "map_of (table w) (event_id ev) = Some old"
    and "serves 2 w"
  shows "fst (deleteBook L ev w) =
           Inr \<lparr>statusCode = 204, headers = None, body = ''Record deleted successfully ''\<rparr>
       \<and> map_of (table (snd (deleteBook L ev w))) = (map_of (table w))(event_id ev := None)
       \<and> (serves 1 (snd (deleteBook L ev w)) \<longrightarrow>
            fst (getBook L ev (snd (deleteBook L ev w))) =
              Inr \<lparr>statusCode = 404, headers = Some json_headers,
                   body = JSON_stringify L (JObj [(''error'', JStr ''not found'')])\<rparr>)
       \<and> (\<forall>res. fst (createBook L uuid ev' w') = Inr res \<or> fst (getBook L ev' w') = Inr res
              \<or> fst (updateBook L ev' w') = Inr res \<or> fst (listBook L ev' w') = Inr res
            \<longrightarrow> headers res = Some json_headers)"
proof -
  note d = deleteBook_try_found [OF assms(2,1), of L]
  have a: "fst (deleteBook L ev w) =
      Inr \<lparr>statusCode = 204, headers = None, body = ''Record deleted successfully ''\<rparr>"
    by (simp add: deleteBook_def catch_def d)
  have t: "table (snd (deleteBook L ev w)) = AList.delete (event_id ev) (table w)"
    by (simp add: deleteBook_def catch_def d)
  have b: "map_of (table (snd (deleteBook L ev w))) = (map_of (table w))(event_id ev := None)"
    by (simp add: t delete_conv')
  have c: "fst (getBook L ev (snd (deleteBook L ev w))) =
      Inr \<lparr>statusCode = 404, headers = Some json_headers,
           body = JSON_stringify L (JObj [(''error'', JStr ''not found'')])\<rparr>"
    if "serves 1 (snd (deleteBook L ev w))"
  proof -
    from that have "serves (Suc 0) (snd (deleteBook L ev w))" by simp
    then show ?thesis by (simp add: getBook_served b)
  qed
  have h: "headers res = Some json_headers"
    if "fst (createBook L uuid ev' w') = Inr res \<or> fst (getBook L ev' w') = Inr res
      \<or> fst (updateBook L ev' w') = Inr res \<or> fst (listBook L ev' w') = Inr res" for res
    using that
  proof (elim disjE)
    assume "fst (createBook L uuid ev' w') = Inr res"
    then show ?thesis by (rule createBook_headers)
  next
    assume "fst (getBook L ev' w') = Inr res"
    then show ?thesis by (rule getBook_headers)
  next
    assume "fst (updateBook L ev' w') = Inr res"
    then show ?thesis by (rule updateBook_headers)
  next
    assume "fst (listBook L ev' w') = Inr res"
    then show ?thesis
      by (auto simp: listBook_def split: prod.splits sum.splits)
  qed
  show ?thesis using a b c h by blast
qed

theorem deleteBook_removes_witness:
  "map_of (table world_1) uuid_1 = Some (book_A @ [(''ISBN'', JStr uuid_1)])
 \<and> serves 2 world_1
 \<and> fst (deleteBook sample_libs \<lparr>event_body = [], event_id = uuid_1\<rparr> world_1) =
      Inr \<lparr>statusCode = 204, headers = None, body = ''Record deleted successfully ''\<rparr>
 \<and> map_of (table (snd (deleteBook sample_libs \<lparr>event_body = [], event_id = uuid_1\<rparr> world_1)))
      uuid_1 = None
 \<and> fst (getBook sample_libs \<lparr>event_body = [], event_id = uuid_1\<rparr>
        (snd (deleteBook sample_libs \<lparr>event_body = [], event_id = uuid_1\<rparr> world_1))) =
      Inr \<lparr>statusCode = 404, headers = Some [(''content-type'', ''application/json'')],
           body = ''{\"error\":\"not found\"}''\<rparr>"
proof -
  let ?ev = "\<lparr>event_body = [], event_id = uuid_1\<rparr>"
  have h1: "map_of (table world_1) (event_id ?ev) = Some (book_A @ [(''ISBN'', JStr uuid_1)])"
    by (simp add: table_world_1)
  have h2: "serves 2 world_1" by (rule serves_world_1)
  have w: "snd (deleteBook sample_libs ?ev world_1) = world_0"
    using deleteBook_try_found [OF h2 h1, of sample_libs]
    by (simp add: deleteBook_def catch_def request_def world_1_def world_0_def)
  have h3: "serves 1 (snd (deleteBook sample_libs ?ev world_1))"
    by (simp add: w serves_world_0)
  show ?thesis
    using deleteBook_removes [OF h1 h2, of sample_libs] h1 h2 h3
    by (simp add: sample_json_not_found json_headers_def)
qed

text \<open>
  C7. Create does not look the new key up before it writes: when the identifier drawn
  by \<^verbatim>\<open>v4()\<close> already has an item, a valid request on a table that serves the write
  still answers 201, and the old item is replaced by the new record; the table gains no
  key.
\<close>

theorem createBook_overwrites_on_collision:
  assumes "map_of (table w) uuid = Some old"
    and "serves 1 w"
    and "JSON_parse L (event_body ev) = Inr reqBody"
    and "schema_validate L reqBody = Inr ()"
  defines "book \<equiv> AList.update ''ISBN'' (JStr uuid) (spread reqBody)"
  shows "fst (createBook L uuid ev w) =
           Inr \<lparr>statusCode = 201, headers = Some json_headers,
                body = JSON_stringify L (JObj book)\<rparr>
       \<and> map_of (table (snd (createBook L uuid ev w))) uuid = Some book
       \<and> map_of (table (snd (createBook L uuid ev w))) = (map_of (table w))(uuid \<mapsto> book)
       \<and> map fst (table (snd (createBook L uuid ev w))) = map fst (table w)"
proof -
  have s: "serves (Suc 0) w" using assms(2) by simp
  note c = createBook_try_valid [OF s assms(3,4), of uuid, folded book_def]
  have a: "fst (createBook L uuid ev w) =
      Inr \<lparr>statusCode = 201, headers = Some json_headers, body = JSON_stringify L (JObj book)\<rparr>"
    by (simp add: createBook_def catch_def c)
  have t: "table (snd (createBook L uuid ev w)) = AList.update uuid book (table w)"
    by (simp add: createBook_def catch_def c)
  have b: "map_of (table (snd (createBook L uuid ev w))) = (map_of (table w))(uuid \<mapsto> book)"
    by (simp add: t update_conv')
  have "uuid \<in> fst ` set (table w)"
    using assms(1) by (metis domI dom_map_of_conv_image_fst)
  then have d: "map fst (table (snd (createBook L uuid ev w))) = map fst (table w)"
    by (simp add: t update_keys)
  show ?thesis using a b d by simp
qed

theorem createBook_overwrites_on_collision_witness:
  "map_of (table world_1) uuid_1 = Some (book_A @ [(''ISBN'', JStr uuid_1)])
 \<and> serves 1 world_1
 \<and> JSON_parse sample_libs body_B = Inr (JObj book_B)
 \<and> schema_validate sample_libs (JObj book_B) = Inr ()
 \<and> fst (createBook sample_libs uuid_1 \<lparr>event_body = body_B, event_id = []\<rparr> world_1) =
      Inr \<lparr>statusCode = 201, headers = Some [(''content-type'', ''application/json'')],
           body = ''{\"ISBN\":\"110ec58a-a0f2-4ac4-8393-c866d813b8d1\",\"author\":\"B\",\"title\":\"U\",\"description\":\"E\",\"publication_date\":\"2021-06-30\",\"available\":false}''\<rparr>
 \<and> map_of (table (snd (createBook sample_libs uuid_1
        \<lparr>event_body = body_B, event_id = []\<rparr> world_1))) uuid_1 =
      Some [(''ISBN'', JStr uuid_1), (''author'', JStr ''B''), (''title'', JStr ''U''),
            (''description'', JStr ''E''), (''publication_date'', JStr ''2021-06-30''),
            (''available'', JBool False)]
 \<and> map fst (table (snd (createBook sample_libs uuid_1
        \<lparr>event_body = body_B, event_id = []\<rparr> world_1))) = [uuid_1]"
proof -
  let ?ev = "\<lparr>event_body = body_B, event_id = []\<rparr>"
  have h1: "map_of (table world_1) uuid_1 = Some (book_A @ [(''ISBN'', JStr uuid_1)])"
    by (simp add: table_world_1)
  have h2: "serves 1 world_1" by (rule serves_world_1)
  have h3: "JSON_parse sample_libs (event_body ?ev) = Inr (JObj book_B)"
    by (simp add: sample_parse_B)
  show ?thesis
    using createBook_overwrites_on_collision [OF h1 h2 h3 sample_valid_B] h1 h2 h3 sample_valid_B
    by (simp add: sample_item_B sample_json_B json_headers_def table_world_1)
qed

text \<open>
  C8. A body that \<^verbatim>\<open>JSON.parse\<close> rejects with message \<open>msg\<close>: create answers 400 with
  the JSON of \<^verbatim>\<open>{error: 'invalid request body format : "msg"'}\<close>, and so does update
  of an existing identifier on a table that serves the read. The failure is answered,
  not thrown, and the table is unchanged.
\<close>

theorem malformed_body_400:
  assumes "JSON_parse L (event_body ev) = Inl msg"
  defines "res \<equiv>
     \<lparr>statusCode = 400, headers = Some json_headers,
      body = JSON_stringify L
        (JObj [(''error'',
           JStr (''invalid request body format : '' @ [CHR 0x22] @ msg @ [CHR 0x22]))])\<rparr>"
  shows "fst (createBook L uuid ev w) = Inr res
       \<and> table (snd (createBook L uuid ev w)) = table w
       \<and> (map_of (table w) (event_id ev) \<noteq> None \<and> serves 1 w \<longrightarrow>
            fst (updateBook L ev w) = Inr res \<and> table (snd (updateBook L ev w)) = table w)"
proof -
  have c: "createBook_try L uuid ev w = (Inl (SyntaxError msg), w)"
    by (simp add: createBook_try_def assms(1))
  have a: "fst (createBook L uuid ev w) = Inr res \<and> table (snd (createBook L uuid ev w)) = table w"
    by (simp add: createBook_def catch_def c handleError_def res_def)
  have b: "fst (updateBook L ev w) = Inr res \<and> table (snd (updateBook L ev w)) = table w"
    if "map_of (table w) (event_id ev) \<noteq> None" and "serves 1 w"
  proof -
    from that(1) obtain old where o: "map_of (table w) (event_id ev) = Some old" by blast
    from that(2) have s: "serves (Suc 0) w" by simp
    have u: "updateBook_try L ev w = (Inl (SyntaxError msg), snd (request w))"
      by (simp add: updateBook_try_def fetchBookById_served [OF s] o assms(1))
    show ?thesis
      by (simp add: updateBook_def catch_def u handleError_def res_def request_table)
  qed
  show ?thesis using a b by blast
qed

theorem malformed_body_400_witness:
  "JSON_parse sample_libs body_truncated = Inl ''Unexpected end of JSON input''
 \<and> fst (createBook sample_libs uuid_1 \<lparr>event_body = body_truncated, event_id = []\<rparr> world_0) =
      Inr \<lparr>statusCode = 400, headers = Some [(''content-type'', ''application/json'')],
           body = ''{\"error\":\"invalid request body format : '' @ [CHR 0x5C, CHR 0x22]
             @ ''Unexpected end of JSON input'' @ [CHR 0x5C, CHR 0x22] @ ''\"}''\<rparr>
 \<and> map_of (table world_1) uuid_1 \<noteq> None
 \<and> serves 1 world_1
 \<and> fst (updateBook sample_libs \<lparr>event_body = body_truncated, event_id = uuid_1\<rparr> world_1) =
      Inr \<lparr>statusCode = 400, headers = Some [(''content-type'', ''application/json'')],
           body = ''{\"error\":\"invalid request body format : '' @ [CHR 0x5C, CHR 0x22]
             @ ''Unexpected end of JSON input'' @ [CHR 0x5C, CHR 0x22] @ ''\"}''\<rparr>
 \<and> table (snd (updateBook sample_libs
        \<lparr>event_body = body_truncated, event_id = uuid_1\<rparr> world_1)) = table world_1"
proof -
  have p: "JSON_parse sample_libs (event_body \<lparr>event_body = body_truncated, event_id = i\<rparr>) =
      Inl ''Unexpected end of JSON input''" for i
    by (simp add: sample_parse_truncated)
  have f: "map_of (table world_1) uuid_1 \<noteq> None"
    by (simp add: table_world_1)
  show ?thesis
    using malformed_body_400 [OF p [of "[]"], where uuid = uuid_1 and w = world_0]
      malformed_body_400 [OF p [of uuid_1], where uuid = uuid_1 and w = world_1]
      f serves_world_1 [of 1] sample_parse_truncated
    by (simp add: sample_libs_def quote_def json_headers_def)
qed

text \<open>
  C9. \<^verbatim>\<open>handleError\<close> answers exactly three kinds of thrown value: a validation
  error with 400 and the JSON of \<^verbatim>\<open>{errors}\<close>, a syntax error with 400 and the JSON
  of \<^verbatim>\<open>{error: 'invalid request body format : "message"'}\<close>, an \<^verbatim>\<open>HttpError\<close> with
  its own status and message, each with the JSON header; it throws every other value
  again. Create, get, update and delete answer what their \<^verbatim>\<open>try\<close> block returns and
  pass what it throws to \<^verbatim>\<open>handleError\<close>. So when DynamoDB rejects a request with
  message \<open>m\<close>, get, update and delete throw that failure, and create does once the body
  has parsed and passed the schema; so do update and delete when the read is served and
  the write is rejected. Nothing else is ever thrown by these four handlers.
  \<^verbatim>\<open>listBook\<close> has no handler at all: a rejected scan is thrown as it is.
\<close>

theorem unclassified_failures_propagate:
  assumes "faults w = Some m # fs"
  shows "handleError L (OtherError m) = Inl (OtherError m)
       \<and> (\<forall>e. (\<exists>res. handleError L e = Inr res) = (\<forall>m'. e \<noteq> OtherError m'))
       \<and> handleError L (ValidationError errors) =
            Inr \<lparr>statusCode = 400, headers = Some json_headers,
                 body = JSON_stringify L (JObj [(''errors'', JArr (map JStr errors))])\<rparr>
       \<and> handleError L (SyntaxError message) =
            Inr \<lparr>statusCode = 400, headers = Some json_headers,
                 body = JSON_stringify L
                   (JObj [(''error'',
                      JStr (''invalid request body format : '' @ [CHR 0x22] @ message
                        @ [CHR 0x22]))])\<rparr>
       \<and> handleError L (HttpError code message) =
            Inr \<lparr>statusCode = code, headers = Some json_headers, body = message\<rparr>
       \<and> fst (createBook L uuid ev' w') =
            (case fst (createBook_try L uuid ev' w') of Inl e \<Rightarrow> handleError L e | Inr res \<Rightarrow> Inr res)
       \<and> fst (getBook L ev' w') =
            (case fst (getBook_try L ev' w') of Inl e \<Rightarrow> handleError L e | Inr res \<Rightarrow> Inr res)
       \<and> fst (updateBook L ev' w') =
            (case fst (updateBook_try L ev' w') of Inl e \<Rightarrow> handleError L e | Inr res \<Rightarrow> Inr res)
       \<and> fst (deleteBook L ev' w') =
            (case fst (deleteBook_try L ev' w') of Inl e \<Rightarrow> handleError L e | Inr res \<Rightarrow> Inr res)
       \<and> fst (getBook L ev w) = Inl (OtherError m)
       \<and> fst (updateBook L ev w) = Inl (OtherError m)
       \<and> fst (deleteBook L ev w) = Inl (OtherError m)
       \<and> fst (listBook L ev w) = Inl (OtherError m)
       \<and> (JSON_parse L (event_body ev) = Inr reqBody \<and> schema_validate L reqBody = Inr () \<longrightarrow>
            fst (createBook L uuid ev w) = Inl (OtherError m))
       \<and> (faults wr = None # Some m # fs \<and> map_of (table wr) (event_id ev) \<noteq> None \<longrightarrow>
            fst (deleteBook L ev wr) = Inl (OtherError m)
          \<and> (JSON_parse L (event_body ev) = Inr reqBody \<and> schema_validate L reqBody = Inr () \<longrightarrow>
                fst (updateBook L ev wr) = Inl (OtherError m)))
       \<and> (\<forall>e. fst (createBook L uuid ev' w') = Inl e \<or> fst (getBook L ev' w') = Inl e
              \<or> fst (updateBook L ev' w') = Inl e \<or> fst (deleteBook L ev' w') = Inl e
            \<longrightarrow> (\<exists>m'. e = OtherError m'))"
proof -
  note f = fetchBookById_rejected [OF assms, of L "event_id ev"]
  have a: "handleError L (OtherError m) = Inl (OtherError m)"
    by (simp add: handleError_def)
  have b: "\<forall>e. (\<exists>res. handleError L e = Inr res) = (\<forall>m'. e \<noteq> OtherError m')"
    by (simp add: handleError_converts)
  have g: "fst (getBook L ev w) = Inl (OtherError m)"
    by (simp add: getBook_def getBook_try_def f catch_def handleError_def)
  have u: "fst (updateBook L ev w) = Inl (OtherError m)"
    by (simp add: updateBook_def updateBook_try_def f catch_def handleError_def)
  have d: "fst (deleteBook L ev w) = Inl (OtherError m)"
    by (simp add: deleteBook_def deleteBook_try_def f catch_def handleError_def)
  have l: "fst (listBook L ev w) = Inl (OtherError m)"
    by (simp add: listBook_def docClient_scan_def request_rejected [OF assms])
  have c: "JSON_parse L (event_body ev) = Inr reqBody \<and> schema_validate L reqBody = Inr () \<longrightarrow>
      fst (createBook L uuid ev w) = Inl (OtherError m)"
    by (simp add: createBook_def createBook_try_def docClient_put_def
        request_rejected [OF assms] catch_def handleError_def Let_def)
  have k: "handleError L (ValidationError errors) =
        Inr \<lparr>statusCode = 400, headers = Some json_headers,
             body = JSON_stringify L (JObj [(''errors'', JArr (map JStr errors))])\<rparr>
      \<and> handleError L (SyntaxError message) =
        Inr \<lparr>statusCode = 400, headers = Some json_headers,
             body = JSON_stringify L
               (JObj [(''error'',
                  JStr (''invalid request body format : '' @ [CHR 0x22] @ message
                    @ [CHR 0x22]))])\<rparr>
      \<and> handleError L (HttpError code message) =
        Inr \<lparr>statusCode = code, headers = Some json_headers, body = message\<rparr>"
    by (simp add: handleError_def)
  have ct: "fst (catch L r) = (case fst r of Inl e \<Rightarrow> handleError L e | Inr res \<Rightarrow> Inr res)" for r
    by (cases r) (simp add: catch_def split: sum.splits)
  have h: "fst (createBook L uuid ev' w') =
        (case fst (createBook_try L uuid ev' w') of Inl e \<Rightarrow> handleError L e | Inr res \<Rightarrow> Inr res)
      \<and> fst (getBook L ev' w') =
        (case fst (getBook_try L ev' w') of Inl e \<Rightarrow> handleError L e | Inr res \<Rightarrow> Inr res)
      \<and> fst (updateBook L ev' w') =
        (case fst (updateBook_try L ev' w') of Inl e \<Rightarrow> handleError L e | Inr res \<Rightarrow> Inr res)
      \<and> fst (deleteBook L ev' w') =
        (case fst (deleteBook_try L ev' w') of Inl e \<Rightarrow> handleError L e | Inr res \<Rightarrow> Inr res)"
    by (simp add: createBook_def getBook_def updateBook_def deleteBook_def ct)
  have t: "fst (deleteBook L ev wr) = Inl (OtherError m)
      \<and> (JSON_parse L (event_body ev) = Inr reqBody \<and> schema_validate L reqBody = Inr () \<longrightarrow>
            fst (updateBook L ev wr) = Inl (OtherError m))"
    if "faults wr = None # Some m # fs" and "map_of (table wr) (event_id ev) \<noteq> None"
  proof -
    from that(2) obtain old where "map_of (table wr) (event_id ev) = Some old" by blast
    note f2 = fetchBookById_then_rejected [OF that(1) this, of L]
    have r: "request (wr\<lparr>faults := Some m # fs\<rparr>) = (Some m, wr\<lparr>faults := fs\<rparr>)"
      by (simp add: request_def)
    have x: "fst (deleteBook L ev wr) = Inl (OtherError m)"
      by (simp add: deleteBook_def deleteBook_try_def f2 docClient_delete_def r catch_def
          handleError_def)
    have y: "JSON_parse L (event_body ev) = Inr reqBody \<and> schema_validate L reqBody = Inr () \<longrightarrow>
        fst (updateBook L ev wr) = Inl (OtherError m)"
      by (simp add: updateBook_def updateBook_try_def f2 docClient_put_def r catch_def
          handleError_def Let_def)
    show ?thesis using x y by simp
  qed
  have o: "\<forall>e. fst (createBook L uuid ev' w') = Inl e \<or> fst (getBook L ev' w') = Inl e
      \<or> fst (updateBook L ev' w') = Inl e \<or> fst (deleteBook L ev' w') = Inl e
      \<longrightarrow> (\<exists>m'. e = OtherError m')"
    by (auto simp: createBook_def getBook_def updateBook_def deleteBook_def dest: catch_Inl)
  show ?thesis using a b k h g u d l c t o by blast
qed

theorem unclassified_failures_propagate_witness:
  "faults world_down = [Some ''ProvisionedThroughputExceededException'']
 \<and> fst (getBook sample_libs \<lparr>event_body = [], event_id = uuid_1\<rparr> world_down) =
      Inl (OtherError ''ProvisionedThroughputExceededException'')
 \<and> fst (updateBook sample_libs \<lparr>event_body = body_A, event_id = uuid_1\<rparr> world_down) =
      Inl (OtherError ''ProvisionedThroughputExceededException'')
 \<and> fst (deleteBook sample_libs \<lparr>event_body = [], event_id = uuid_1\<rparr> world_down) =
      Inl (OtherError ''ProvisionedThroughputExceededException'')
 \<and> fst (listBook sample_libs \<lparr>event_body = [], event_id = []\<rparr> world_down) =
      Inl (OtherError ''ProvisionedThroughputExceededException'')
 \<and> fst (createBook sample_libs uuid_1 \<lparr>event_body = body_A, event_id = []\<rparr> world_down) =
      Inl (OtherError ''ProvisionedThroughputExceededException'')
 \<and> fst (deleteBook sample_libs \<lparr>event_body = [], event_id = uuid_1\<rparr>
        (world_1\<lparr>faults := [None, Some ''ProvisionedThroughputExceededException'']\<rparr>)) =
      Inl (OtherError ''ProvisionedThroughputExceededException'')
 \<and> handleError sample_libs (OtherError ''ProvisionedThroughputExceededException'') =
      Inl (OtherError ''ProvisionedThroughputExceededException'')
 \<and> handleError sample_libs (ValidationError [''title is a required field'']) =
      Inr \<lparr>statusCode = 400, headers = Some [(''content-type'', ''application/json'')],
           body = ''{\"errors\":[\"title is a required field\"]}''\<rparr>
 \<and> handleError sample_libs (HttpError 404 ''{\"error\":\"not found\"}'') =
      Inr \<lparr>statusCode = 404, headers = Some [(''content-type'', ''application/json'')],
           body = ''{\"error\":\"not found\"}''\<rparr>"
proof -
  let ?m = "''ProvisionedThroughputExceededException''"
  have h: "faults world_down = Some ?m # []"
    by (simp add: world_down_def)
  have p: "JSON_parse sample_libs (event_body \<lparr>event_body = body_A, event_id = []\<rparr>) =
      Inr (JObj book_A)"
    by (simp add: sample_parse_A)
  have js: "JSON_stringify sample_libs
      (JObj [(''errors'', JArr [JStr ''title is a required field''])]) =
      ''{\"errors\":[\"title is a required field\"]}''"
    by (simp add: sample_libs_def quote_def)
  show ?thesis
    using unclassified_failures_propagate [OF h, where L = sample_libs
        and ev = "\<lparr>event_body = [], event_id = uuid_1\<rparr>"]
      unclassified_failures_propagate [OF h, where L = sample_libs
        and ev = "\<lparr>event_body = body_A, event_id = uuid_1\<rparr>"]
      unclassified_failures_propagate [OF h, where L = sample_libs
        and ev = "\<lparr>event_body = [], event_id = []\<rparr>"]
      unclassified_failures_propagate [OF h, where L = sample_libs
        and ev = "\<lparr>event_body = body_A, event_id = []\<rparr>"
        and reqBody = "JObj book_A" and uuid = uuid_1]
      unclassified_failures_propagate [OF h, where L = sample_libs
        and ev = "\<lparr>event_body = [], event_id = uuid_1\<rparr>"
        and wr = "world_1\<lparr>faults := [None, Some ''ProvisionedThroughputExceededException'']\<rparr>"]
      unclassified_failures_propagate [OF h, where L = sample_libs
        and errors = "[''title is a required field'']" and code = 404
        and message = "''{\"error\":\"not found\"}''"]
      h p sample_valid_A js
    by (simp add: table_world_1 json_headers_def)
qed

text \<open>
  C10. An answer of 400 or 404 from create, update or delete leaves the table as it
  was: the handlers write only after parsing, validation and the existence check.
\<close>

theorem error_response_leaves_table:
  "(fst (createBook L uuid ev w) = Inr res \<and> (statusCode res = 400 \<or> statusCode res = 404)
      \<longrightarrow> table (snd (createBook L uuid ev w)) = table w)
 \<and> (fst (updateBook L ev w) = Inr res \<and> (statusCode res = 400 \<or> statusCode res = 404)
      \<longrightarrow> table (snd (updateBook L ev w)) = table w)
 \<and> (fst (deleteBook L ev w) = Inr res \<and> (statusCode res = 400 \<or> statusCode res = 404)
      \<longrightarrow> table (snd (deleteBook L ev w)) = table w)"
proof (intro conjI impI)
  assume h: "fst (createBook L uuid ev w) = Inr res \<and> (statusCode res = 400 \<or> statusCode res = 404)"
  obtain r w' where t: "createBook_try L uuid ev w = (r, w')" by (cases "createBook_try L uuid ev w")
  from h have "\<exists>e. r = Inl e"
    using createBook_try_Inr [of L uuid ev w res w'] catch_Inr [of L "(r, w')" res]
    by (auto simp: createBook_def t)
  then show "table (snd (createBook L uuid ev w)) = table w"
    using createBook_try_Inl [of L uuid ev w _ w'] by (auto simp: createBook_def catch_snd t)
next
  assume h: "fst (updateBook L ev w) = Inr res \<and> (statusCode res = 400 \<or> statusCode res = 404)"
  obtain r w' where t: "updateBook_try L ev w = (r, w')" by (cases "updateBook_try L ev w")
  from h have "\<exists>e. r = Inl e"
    using updateBook_try_Inr [of L ev w res w'] catch_Inr [of L "(r, w')" res]
    by (auto simp: updateBook_def t)
  then show "table (snd (updateBook L ev w)) = table w"
    using updateBook_try_Inl [of L ev w _ w'] by (auto simp: updateBook_def catch_snd t)
next
  assume h: "fst (deleteBook L ev w) = Inr res \<and> (statusCode res = 400 \<or> statusCode res = 404)"
  obtain r w' where t: "deleteBook_try L ev w = (r, w')" by (cases "deleteBook_try L ev w")
  from h have "\<exists>e. r = Inl e"
    using deleteBook_try_Inr [of L ev w res w'] catch_Inr [of L "(r, w')" res]
    by (auto simp: deleteBook_def t)
  then show "table (snd (deleteBook L ev w)) = table w"
    using deleteBook_try_Inl [of L ev w _ w'] by (auto simp: deleteBook_def catch_snd t)
qed

theorem error_response_leaves_table_witness:
  "fst (createBook sample_libs uuid_1 \<lparr>event_body = body_partial, event_id = []\<rparr> world_1) =
      Inr \<lparr>statusCode = 400, headers = Some json_headers,
           body = JSON_stringify sample_libs
             (JObj [(''errors'', JArr (map JStr (field_errors sample_libs book_partial)))])\<rparr>
 \<and> table (snd (createBook sample_libs uuid_1
        \<lparr>event_body = body_partial, event_id = []\<rparr> world_1)) = table world_1
 \<and> fst (updateBook sample_libs \<lparr>event_body = body_A, event_id = ''no-such-id''\<rparr> world_1) =
      Inr \<lparr>statusCode = 404, headers = Some json_headers,
           body = JSON_stringify sample_libs (JObj [(''error'', JStr ''not found'')])\<rparr>
 \<and> table (snd (updateBook sample_libs
        \<lparr>event_body = body_A, event_id = ''no-such-id''\<rparr> world_1)) = table world_1
 \<and> fst (deleteBook sample_libs \<lparr>event_body = [], event_id = ''no-such-id''\<rparr> world_1) =
      Inr \<lparr>statusCode = 404, headers = Some json_headers,
           body = JSON_stringify sample_libs (JObj [(''error'', JStr ''not found'')])\<rparr>
 \<and> table (snd (deleteBook sample_libs
        \<lparr>event_body = [], event_id = ''no-such-id''\<rparr> world_1)) = table world_1"
proof -
  let ?c = "\<lparr>event_body = body_partial, event_id = []\<rparr>"
  let ?u = "\<lparr>event_body = body_A, event_id = ''no-such-id''\<rparr>"
  let ?d = "\<lparr>event_body = [], event_id = ''no-such-id''\<rparr>"
  let ?nf = "\<lparr>statusCode = 404, headers = Some json_headers,
      body = JSON_stringify sample_libs (JObj [(''error'', JStr ''not found'')])\<rparr>"
  let ?ve = "\<lparr>statusCode = 400, headers = Some json_headers,
      body = JSON_stringify sample_libs
        (JObj [(''errors'', JArr (map JStr (field_errors sample_libs book_partial)))])\<rparr>"
  have s: "serves (Suc 0) world_1" by (rule serves_world_1)
  have v: "schema_validate sample_libs (JObj book_partial) =
      Inl (ValidationError (field_errors sample_libs book_partial))"
    by (simp add: schema_validate_object sample_results_partial sample_errors_partial)
  have c: "fst (createBook sample_libs uuid_1 ?c world_1) =
      Inr \<lparr>statusCode = 400, headers = Some json_headers,
           body = JSON_stringify sample_libs
             (JObj [(''errors'', JArr (map JStr (field_errors sample_libs book_partial)))])\<rparr>"
    by (simp add: createBook_def createBook_try_def sample_parse_partial v catch_def
        handleError_def)
  have u: "fst (updateBook sample_libs ?u world_1) = Inr ?nf"
    using updateBook_try_absent [OF s, of ?u sample_libs]
    by (simp add: updateBook_def catch_def handleError_def absent_world_1)
  have d: "fst (deleteBook sample_libs ?d world_1) = Inr ?nf"
    by (simp add: deleteBook_def deleteBook_try_def fetchBookById_served [OF s] absent_world_1
        catch_def handleError_def)
  show ?thesis
    using error_response_leaves_table [of sample_libs uuid_1 ?c world_1 ?ve]
      error_response_leaves_table [of sample_libs uuid_1 ?u world_1 ?nf]
      error_response_leaves_table [of sample_libs uuid_1 ?d world_1 ?nf]
      c u d
    by simp
qed

end
